theory Spec2Isabelle
  imports Main
begin

section \<open>JSON values, request bodies and responses\<close>

text \<open>
  The scalar values a request body carries and a column holds: \<open>null\<close>, an integer
  or a string (the column types of \<open>models.py\<close> are Integer, String, Text and
  DateTime). Booleans, floats and nested values in a payload are outside this model.
\<close>

datatype jval = JNull | JInt int | JStr string

text \<open>Python truthiness of such a value: \<open>None\<close>, \<open>0\<close> and \<open>""\<close> are falsy.\<close>

fun truthy :: "jval \<Rightarrow> bool" where
  "truthy JNull = False"
| "truthy (JInt i) = (i \<noteq> 0)"
| "truthy (JStr s) = (s \<noteq> [])"

text \<open>
  \<open>request.get_json()\<close>: the parsed body, a dict, kept as an association list and read
  with \<open>map_of\<close>. The handlers only test \<open>not json_data\<close>, which holds for a missing
  body and for \<open>{}\<close> alike; both are the empty list here.
  \<open>'k' in json_data\<close> is \<open>map_of json_data k \<noteq> None\<close>, and \<open>json_data['k']\<close> after
  that test is the value found.
\<close>

type_synonym json_data = "(string \<times> jval) list"

definition dict_get :: "json_data \<Rightarrow> string \<Rightarrow> jval" where
  \<comment> \<open>\<open>json_data.get(k)\<close>: \<open>None\<close> when the key is absent\<close>
  "dict_get d k = (case map_of d k of None \<Rightarrow> JNull | Some v \<Rightarrow> v)"

text \<open>
  What a handler hands back: a JSON object or a JSON array of objects, with a status
  (a handler that returns only a body answers 200); \<open>Abort\<close> is \<open>get_or_404\<close>
  raising the HTTP error; \<open>Unhandled\<close> is an exception the handler does not catch
  (the storage refusing a row at \<open>db.session.commit()\<close>, a \<open>KeyError\<close>).
\<close>

datatype body = Obj "(string \<times> jval) list" | Arr "(string \<times> jval) list list" | Empty

datatype outcome = Respond nat body | Abort nat | Unhandled

definition message :: "string \<Rightarrow> body" where
  "message m = Obj [(''message'', JStr m)]"

fun status_of :: "outcome \<Rightarrow> nat option" where
  "status_of (Respond st b) = Some st"
| "status_of (Abort st) = Some st"
| "status_of Unhandled = None"

section \<open>The schema of \<open>models.py\<close>\<close>

text \<open>
  One record per model class, one field per column. A column holds the value the handler
  assigned to it; the primary key is an integer. \<open>'t\<close> is the type of stored
  timestamps (the \<open>DateTime\<close> column), ordered as the storage compares them.
\<close>

record Type =
  Type_id :: int
  Type_name :: jval

record Property =
  Property_id :: int
  Property_name :: jval
  Property_valueType :: jval

record Place =
  Place_id :: int
  Place_name :: jval
  Place_lat :: jval
  Place_lon :: jval
  Place_alt :: jval
  Place_timezone :: jval

record Instrument =
  Instrument_id :: int
  Instrument_name :: jval
  Instrument_aperture :: jval
  Instrument_power :: jval

record Object =
  Object_id :: int
  Object_name :: jval
  Object_desination :: jval
  Object_type :: jval
  Object_props :: jval

record 't Observation =
  Observation_id :: int
  Observation_object :: jval
  Observation_place :: jval
  Observation_instrument :: jval
  Observation_datetime :: "'t option"
  Observation_observation :: jval
  Observation_prop1 :: jval
  Observation_prop1value :: jval

text \<open>
  The committed database: one list of rows per table, in storage order. A handler
  reads it, works on its own copy of a row (the ORM object of the request's session), and
  only \<open>db.session.commit()\<close> writes to it; a handler that returns before the commit
  leaves it as it was (the request's session is discarded with its pending changes).
\<close>

record 't db =
  types :: "Type list"
  properities :: "Property list"
  places :: "Place list"
  instruments :: "Instrument list"
  objects :: "Object list"
  observations :: "'t Observation list"

subsection \<open>Primary keys\<close>

text \<open>
  \<open>Model.query.get(k)\<close>: the row with primary key \<open>k\<close>, if any. Called with a value
  taken from the body, it finds a row only when the value is an integer.
\<close>

definition query_get :: "('r \<Rightarrow> int) \<Rightarrow> 'r list \<Rightarrow> int \<Rightarrow> 'r option" where
  "query_get pk rows k = find (\<lambda>r. pk r = k) rows"

fun query_get_j :: "('r \<Rightarrow> int) \<Rightarrow> 'r list \<Rightarrow> jval \<Rightarrow> 'r option" where
  "query_get_j pk rows (JInt k) = query_get pk rows k"
| "query_get_j pk rows JNull = None"
| "query_get_j pk rows (JStr s) = None"

text \<open>
  The key of an inserted row. With no key given (\<open>None\<close>) the storage assigns one that
  no row of the table uses: one more than the largest. A key given by the client is kept;
  the storage refuses a key that a row already has, and one that is not an integer.
\<close>

definition next_id :: "int list \<Rightarrow> int" where
  "next_id ids = fold max ids 0 + 1"

fun assign_id :: "int list \<Rightarrow> jval \<Rightarrow> int option" where
  "assign_id ids JNull = Some (next_id ids)"
| "assign_id ids (JInt i) = (if i \<in> set ids then None else Some i)"
| "assign_id ids (JStr s) = None"

text \<open>\<open>UPDATE ... WHERE id = k\<close> and \<open>DELETE ... WHERE id = k\<close>, as the commit issues them.\<close>

definition update_row :: "('r \<Rightarrow> int) \<Rightarrow> 'r \<Rightarrow> 'r list \<Rightarrow> 'r list" where
  "update_row pk r rows = map (\<lambda>x. if pk x = pk r then r else x) rows"

definition delete_row :: "('r \<Rightarrow> int) \<Rightarrow> int \<Rightarrow> 'r list \<Rightarrow> 'r list" where
  "delete_row pk k rows = filter (\<lambda>x. pk x \<noteq> k) rows"

subsection \<open>The statements of a \<open>put\<close>\<close>

text \<open>
  \<open>if 'k' in json_data: row.f = json_data['k']\<close>, the conditional assignment of every
  \<open>put\<close>: \<open>upd\<close> is the assignment, applied to the value found under the key.
\<close>

definition if_in :: "json_data \<Rightarrow> string \<Rightarrow> (jval \<Rightarrow> 'r \<Rightarrow> 'r) \<Rightarrow> 'r \<Rightarrow> 'r" where
  "if_in json_data k upd r = (case map_of json_data k of None \<Rightarrow> r | Some v \<Rightarrow> upd v r)"

text \<open>
  \<open>if 'k' in json_data:\<close> followed by a check that can return an error message before
  the assignment. \<open>and_then\<close> runs the next statement unless an earlier one returned.
\<close>

definition if_in_checked ::
  "json_data \<Rightarrow> string \<Rightarrow> (jval \<Rightarrow> 'r \<Rightarrow> string + 'r) \<Rightarrow> 'r \<Rightarrow> string + 'r" where
  "if_in_checked json_data k chk r =
     (case map_of json_data k of None \<Rightarrow> Inr r | Some v \<Rightarrow> chk v r)"

fun and_then :: "'e + 'a \<Rightarrow> ('a \<Rightarrow> 'e + 'b) \<Rightarrow> 'e + 'b" where
  "and_then (Inl e) f = Inl e"
| "and_then (Inr x) f = f x"

section \<open>\<open>resources.py\<close>: Type\<close>

definition Type_repr :: "Type \<Rightarrow> (string \<times> jval) list" where
  "Type_repr type_obj = [(''id'', JInt (Type_id type_obj)), (''name'', Type_name type_obj)]"

definition TypeListResource_get :: "'t db \<Rightarrow> outcome" where
  "TypeListResource_get db = Respond 200 (Arr (map Type_repr (types db)))"

definition TypeListResource_post :: "'t db \<Rightarrow> json_data \<Rightarrow> outcome \<times> 't db" where
  "TypeListResource_post db json_data =
    (if json_data = [] then (Respond 400 (message ''No input data provided''), db)
     else case map_of json_data ''name'' of
       None \<Rightarrow> (Respond 400 (message ''Name is required''), db)
     | Some name \<Rightarrow>
        (case assign_id (map Type_id (types db)) (dict_get json_data ''id'') of
           None \<Rightarrow> (Unhandled, db)
         | Some i \<Rightarrow>
            let type_obj = \<lparr>Type_id = i, Type_name = name\<rparr>
            in (Respond 201 (Obj (Type_repr type_obj)), db\<lparr>types := types db @ [type_obj]\<rparr>)))"

definition TypeResource_get :: "'t db \<Rightarrow> int \<Rightarrow> outcome" where
  "TypeResource_get db type_id =
    (case query_get Type_id (types db) type_id of
       None \<Rightarrow> Respond 404 (message ''Type not found'')
     | Some type_obj \<Rightarrow> Respond 200 (Obj (Type_repr type_obj)))"

definition TypeResource_put :: "'t db \<Rightarrow> int \<Rightarrow> json_data \<Rightarrow> outcome \<times> 't db" where
  "TypeResource_put db type_id json_data =
    (case query_get Type_id (types db) type_id of
       None \<Rightarrow> (Respond 404 (message ''Type not found''), db)
     | Some type_obj \<Rightarrow>
        if json_data = [] then (Respond 400 (message ''No input data provided''), db)
        else
          let type_obj = if_in json_data ''name'' (\<lambda>v r. r\<lparr>Type_name := v\<rparr>) type_obj
          in (Respond 200 (Obj (Type_repr type_obj)),
              db\<lparr>types := update_row Type_id type_obj (types db)\<rparr>))"

definition TypeResource_delete :: "'t db \<Rightarrow> int \<Rightarrow> outcome \<times> 't db" where
  "TypeResource_delete db type_id =
    (case query_get Type_id (types db) type_id of
       None \<Rightarrow> (Respond 404 (message ''Type not found''), db)
     | Some type_obj \<Rightarrow>
        if filter (\<lambda>obj. Object_type obj = JInt type_id) (objects db) \<noteq> []
        then (Respond 400 (message ''Cannot delete type that is in use''), db)
        else (Respond 204 (message ''Type deleted successfully''),
              db\<lparr>types := delete_row Type_id type_id (types db)\<rparr>))"

section \<open>\<open>resources.py\<close>: Property\<close>

definition Property_repr :: "Property \<Rightarrow> (string \<times> jval) list" where
  "Property_repr p = [(''id'', JInt (Property_id p)), (''name'', Property_name p),
                      (''valueType'', Property_valueType p)]"

definition PropertyListResource_get :: "'t db \<Rightarrow> outcome" where
  "PropertyListResource_get db = Respond 200 (Arr (map Property_repr (properities db)))"

definition PropertyListResource_post :: "'t db \<Rightarrow> json_data \<Rightarrow> outcome \<times> 't db" where
  "PropertyListResource_post db json_data =
    (if json_data = [] then (Respond 400 (message ''No input data provided''), db)
     else case map_of json_data ''name'' of
       None \<Rightarrow> (Respond 400 (message ''Name is required''), db)
     | Some name \<Rightarrow>
        (case map_of json_data ''valueType'' of
           None \<Rightarrow> (Respond 400 (message ''Value type is required''), db)
         | Some valueType \<Rightarrow>
            (case assign_id (map Property_id (properities db)) (dict_get json_data ''id'') of
               None \<Rightarrow> (Unhandled, db)
             | Some i \<Rightarrow>
                let p = \<lparr>Property_id = i, Property_name = name, Property_valueType = valueType\<rparr>
                in (Respond 201 (Obj (Property_repr p)),
                    db\<lparr>properities := properities db @ [p]\<rparr>))))"

definition PropertyResource_get :: "'t db \<Rightarrow> int \<Rightarrow> outcome" where
  "PropertyResource_get db property_id =
    (case query_get Property_id (properities db) property_id of
       None \<Rightarrow> Respond 404 (message ''Property not found'')
     | Some p \<Rightarrow> Respond 200 (Obj (Property_repr p)))"

definition PropertyResource_put :: "'t db \<Rightarrow> int \<Rightarrow> json_data \<Rightarrow> outcome \<times> 't db" where
  "PropertyResource_put db property_id json_data =
    (case query_get Property_id (properities db) property_id of
       None \<Rightarrow> (Respond 404 (message ''Property not found''), db)
     | Some p \<Rightarrow>
        if json_data = [] then (Respond 400 (message ''No input data provided''), db)
        else
          let p = if_in json_data ''name'' (\<lambda>v r. r\<lparr>Property_name := v\<rparr>) p;
              p = if_in json_data ''valueType'' (\<lambda>v r. r\<lparr>Property_valueType := v\<rparr>) p
          in (Respond 200 (Obj (Property_repr p)),
              db\<lparr>properities := update_row Property_id p (properities db)\<rparr>))"

definition PropertyResource_delete :: "'t db \<Rightarrow> int \<Rightarrow> outcome \<times> 't db" where
  "PropertyResource_delete db property_id =
    (case query_get Property_id (properities db) property_id of
       None \<Rightarrow> (Respond 404 (message ''Property not found''), db)
     | Some p \<Rightarrow>
        if filter (\<lambda>obs. Observation_prop1 obs = JInt property_id) (observations db) \<noteq> []
        then (Respond 400 (message ''Cannot delete property that is in use''), db)
        else (Respond 204 (message ''Property deleted successfully''),
              db\<lparr>properities := delete_row Property_id property_id (properities db)\<rparr>))"

section \<open>\<open>resources.py\<close>: Place\<close>

definition Place_repr :: "Place \<Rightarrow> (string \<times> jval) list" where
  "Place_repr place = [(''id'', JInt (Place_id place)), (''name'', Place_name place),
                       (''lat'', Place_lat place), (''lon'', Place_lon place),
                       (''alt'', Place_alt place), (''timezone'', Place_timezone place)]"

definition PlaceListResource_get :: "'t db \<Rightarrow> outcome" where
  "PlaceListResource_get db = Respond 200 (Arr (map Place_repr (places db)))"

definition PlaceListResource_post :: "'t db \<Rightarrow> json_data \<Rightarrow> outcome \<times> 't db" where
  "PlaceListResource_post db json_data =
    (if json_data = [] then (Respond 400 (message ''No input data provided''), db)
     else case map_of json_data ''name'' of
       None \<Rightarrow> (Respond 400 (message ''Name is required''), db)
     | Some name \<Rightarrow>
        (case map_of json_data ''lat'' of
           None \<Rightarrow> (Respond 400 (message ''Latitude is required''), db)
         | Some lat \<Rightarrow>
            (case map_of json_data ''lon'' of
               None \<Rightarrow> (Respond 400 (message ''Longitude is required''), db)
             | Some lon \<Rightarrow>
                let place = \<lparr>Place_id = next_id (map Place_id (places db)),
                             Place_name = name, Place_lat = lat, Place_lon = lon,
                             Place_alt = dict_get json_data ''alt'',
                             Place_timezone = dict_get json_data ''timezone''\<rparr>
                in (Respond 201 (Obj (Place_repr place)),
                    db\<lparr>places := places db @ [place]\<rparr>))))"

definition PlaceResource_get :: "'t db \<Rightarrow> int \<Rightarrow> outcome" where
  "PlaceResource_get db place_id =
    (case query_get Place_id (places db) place_id of
       None \<Rightarrow> Respond 404 (message ''Place not found'')
     | Some place \<Rightarrow> Respond 200 (Obj (Place_repr place)))"

definition PlaceResource_put :: "'t db \<Rightarrow> int \<Rightarrow> json_data \<Rightarrow> outcome \<times> 't db" where
  "PlaceResource_put db place_id json_data =
    (case query_get Place_id (places db) place_id of
       None \<Rightarrow> (Respond 404 (message ''Place not found''), db)
     | Some place \<Rightarrow>
        if json_data = [] then (Respond 400 (message ''No input data provided''), db)
        else
          let place = if_in json_data ''name'' (\<lambda>v r. r\<lparr>Place_name := v\<rparr>) place;
              place = if_in json_data ''lat'' (\<lambda>v r. r\<lparr>Place_lat := v\<rparr>) place;
              place = if_in json_data ''lon'' (\<lambda>v r. r\<lparr>Place_lon := v\<rparr>) place;
              place = if_in json_data ''alt'' (\<lambda>v r. r\<lparr>Place_alt := v\<rparr>) place;
              place = if_in json_data ''timezone'' (\<lambda>v r. r\<lparr>Place_timezone := v\<rparr>) place
          in (Respond 200 (Obj (Place_repr place)),
              db\<lparr>places := update_row Place_id place (places db)\<rparr>))"

definition PlaceResource_delete :: "'t db \<Rightarrow> int \<Rightarrow> outcome \<times> 't db" where
  "PlaceResource_delete db place_id =
    (case query_get Place_id (places db) place_id of
       None \<Rightarrow> (Respond 404 (message ''Place not found''), db)
     | Some place \<Rightarrow>
        if filter (\<lambda>obs. Observation_place obs = JInt place_id) (observations db) \<noteq> []
        then (Respond 400 (message ''Cannot delete place that is in use''), db)
        else (Respond 204 (message ''Place deleted successfully''),
              db\<lparr>places := delete_row Place_id place_id (places db)\<rparr>))"

section \<open>\<open>resources.py\<close>: Instrument\<close>

definition Instrument_repr :: "Instrument \<Rightarrow> (string \<times> jval) list" where
  "Instrument_repr instrument =
     [(''id'', JInt (Instrument_id instrument)), (''name'', Instrument_name instrument),
      (''aperture'', Instrument_aperture instrument), (''power'', Instrument_power instrument)]"

definition InstrumentListResource_get :: "'t db \<Rightarrow> outcome" where
  "InstrumentListResource_get db = Respond 200 (Arr (map Instrument_repr (instruments db)))"

definition InstrumentListResource_post :: "'t db \<Rightarrow> json_data \<Rightarrow> outcome \<times> 't db" where
  "InstrumentListResource_post db json_data =
    (if json_data = [] then (Respond 400 (message ''No input data provided''), db)
     else case map_of json_data ''name'' of
       None \<Rightarrow> (Respond 400 (message ''Name is required''), db)
     | Some name \<Rightarrow>
        (case assign_id (map Instrument_id (instruments db)) (dict_get json_data ''id'') of
           None \<Rightarrow> (Unhandled, db)
         | Some i \<Rightarrow>
            let instrument = \<lparr>Instrument_id = i, Instrument_name = name,
                              Instrument_aperture = dict_get json_data ''aperture'',
                              Instrument_power = dict_get json_data ''power''\<rparr>
            in (Respond 201 (Obj (Instrument_repr instrument)),
                db\<lparr>instruments := instruments db @ [instrument]\<rparr>)))"

definition InstrumentResource_get :: "'t db \<Rightarrow> int \<Rightarrow> outcome" where
  "InstrumentResource_get db instrument_id =
    (case query_get Instrument_id (instruments db) instrument_id of
       None \<Rightarrow> Respond 404 (message ''Instrument not found'')
     | Some instrument \<Rightarrow> Respond 200 (Obj (Instrument_repr instrument)))"

definition InstrumentResource_put :: "'t db \<Rightarrow> int \<Rightarrow> json_data \<Rightarrow> outcome \<times> 't db" where
  "InstrumentResource_put db instrument_id json_data =
    (case query_get Instrument_id (instruments db) instrument_id of
       None \<Rightarrow> (Respond 404 (message ''Instrument not found''), db)
     | Some instrument \<Rightarrow>
        if json_data = [] then (Respond 400 (message ''No input data provided''), db)
        else
          let instrument = if_in json_data ''name'' (\<lambda>v r. r\<lparr>Instrument_name := v\<rparr>) instrument;
              instrument =
                if_in json_data ''aperture'' (\<lambda>v r. r\<lparr>Instrument_aperture := v\<rparr>) instrument;
              instrument = if_in json_data ''power'' (\<lambda>v r. r\<lparr>Instrument_power := v\<rparr>) instrument
          in (Respond 200 (Obj (Instrument_repr instrument)),
              db\<lparr>instruments := update_row Instrument_id instrument (instruments db)\<rparr>))"

definition InstrumentResource_delete :: "'t db \<Rightarrow> int \<Rightarrow> outcome \<times> 't db" where
  "InstrumentResource_delete db instrument_id =
    (case query_get Instrument_id (instruments db) instrument_id of
       None \<Rightarrow> (Respond 404 (message ''Instrument not found''), db)
     | Some instrument \<Rightarrow>
        if filter (\<lambda>obs. Observation_instrument obs = JInt instrument_id) (observations db) \<noteq> []
        then (Respond 400 (message ''Cannot delete instrument that is in use''), db)
        else (Respond 204 (message ''Instrument deleted successfully''),
              db\<lparr>instruments := delete_row Instrument_id instrument_id (instruments db)\<rparr>))"

section \<open>\<open>resources.py\<close>: Object\<close>

definition Object_repr :: "Object \<Rightarrow> (string \<times> jval) list" where
  "Object_repr obj = [(''id'', JInt (Object_id obj)), (''name'', Object_name obj),
                      (''desination'', Object_desination obj), (''type'', Object_type obj),
                      (''props'', Object_props obj)]"

definition ObjectListResource_get :: "'t db \<Rightarrow> outcome" where
  "ObjectListResource_get db = Respond 200 (Arr (map Object_repr (objects db)))"

definition ObjectListResource_post :: "'t db \<Rightarrow> json_data \<Rightarrow> outcome \<times> 't db" where
  "ObjectListResource_post db json_data =
    (if json_data = [] then (Respond 400 (message ''No input data provided''), db)
     else case map_of json_data ''name'' of
       None \<Rightarrow> (Respond 400 (message ''Name is required''), db)
     | Some name \<Rightarrow>
        (case map_of json_data ''type'' of
           None \<Rightarrow> (Respond 400 (message ''Type is required''), db)
         | Some ty \<Rightarrow>
            (case query_get_j Type_id (types db) ty of
               None \<Rightarrow> (Respond 400 (message ''Type not found''), db)
             | Some type_obj \<Rightarrow>
                (case assign_id (map Object_id (objects db)) (dict_get json_data ''id'') of
                   None \<Rightarrow> (Unhandled, db)
                 | Some i \<Rightarrow>
                    let obj = \<lparr>Object_id = i, Object_name = name,
                               Object_desination = dict_get json_data ''desination'',
                               Object_type = ty,
                               Object_props = dict_get json_data ''props''\<rparr>
                    in (Respond 201 (Obj (Object_repr obj)),
                        db\<lparr>objects := objects db @ [obj]\<rparr>)))))"

definition ObjectResource_get :: "'t db \<Rightarrow> int \<Rightarrow> outcome" where
  "ObjectResource_get db object_id =
    (case query_get Object_id (objects db) object_id of
       None \<Rightarrow> Respond 404 (message ''Object not found'')
     | Some obj \<Rightarrow> Respond 200 (Obj (Object_repr obj)))"

definition ObjectResource_put :: "'t db \<Rightarrow> int \<Rightarrow> json_data \<Rightarrow> outcome \<times> 't db" where
  "ObjectResource_put db object_id json_data =
    (case query_get Object_id (objects db) object_id of
       None \<Rightarrow> (Respond 404 (message ''Object not found''), db)
     | Some obj \<Rightarrow>
        if json_data = [] then (Respond 400 (message ''No input data provided''), db)
        else
          (case if_in_checked json_data ''type''
                  (\<lambda>v r. case query_get_j Type_id (types db) v of
                            None \<Rightarrow> Inl ''Type not found''
                          | Some type_obj \<Rightarrow> Inr (r\<lparr>Object_type := v\<rparr>)) obj of
             Inl msg \<Rightarrow> (Respond 400 (message msg), db)
           | Inr obj \<Rightarrow>
              let obj = if_in json_data ''name'' (\<lambda>v r. r\<lparr>Object_name := v\<rparr>) obj;
                  obj = if_in json_data ''desination'' (\<lambda>v r. r\<lparr>Object_desination := v\<rparr>) obj;
                  obj = if_in json_data ''props'' (\<lambda>v r. r\<lparr>Object_props := v\<rparr>) obj
              in (Respond 200 (Obj (Object_repr obj)),
                  db\<lparr>objects := update_row Object_id obj (objects db)\<rparr>)))"

definition ObjectResource_delete :: "'t db \<Rightarrow> int \<Rightarrow> outcome \<times> 't db" where
  "ObjectResource_delete db object_id =
    (case query_get Object_id (objects db) object_id of
       None \<Rightarrow> (Respond 404 (message ''Object not found''), db)
     | Some obj \<Rightarrow>
        if filter (\<lambda>obs. Observation_object obs = JInt object_id) (observations db) \<noteq> []
        then (Respond 400 (message ''Cannot delete object that is in use''), db)
        else (Respond 204 (message ''Object deleted successfully''),
              db\<lparr>objects := delete_row Object_id object_id (objects db)\<rparr>))"

section \<open>\<open>resources.py\<close>: Observation\<close>

text \<open>
  The library functions the handlers call, which are not part of the repository:
  \<open>datetime.fromisoformat\<close> (\<open>None\<close> where Python raises), \<open>datetime.isoformat\<close> and
  \<open>int\<close> on a string (\<open>None\<close> where Python raises \<open>ValueError\<close>). The handlers are
  modelled for any such functions; \<open>fromisoformat\<close> yields the timestamp as it is stored.
\<close>

record 't pylib =
  fromisoformat :: "string \<Rightarrow> 't option"
  isoformat :: "'t \<Rightarrow> string"
  int_of_str :: "string \<Rightarrow> int option"

definition replace_Z :: "string \<Rightarrow> string" where
  \<comment> \<open>\<open>s.replace('Z', '+00:00')\<close>: every \<open>Z\<close> of the text is rewritten\<close>
  "replace_Z s = concat (map (\<lambda>c. if c = CHR ''Z'' then ''+00:00'' else [c]) s)"

text \<open>
  \<open>datetime.fromisoformat(json_data['datetime'].replace('Z', '+00:00'))\<close> inside
  \<open>try ... except Exception\<close>: a value that is not a string has no \<open>replace\<close>, and the
  \<open>AttributeError\<close> is caught like the parser's \<open>ValueError\<close>.
\<close>

fun parse_datetime :: "'t pylib \<Rightarrow> jval \<Rightarrow> 't option" where
  "parse_datetime L (JStr s) = fromisoformat L (replace_Z s)"
| "parse_datetime L JNull = None"
| "parse_datetime L (JInt i) = None"

definition datetime_format_message :: string where
  "datetime_format_message = ''Invalid datetime format. Use ISO format (YYYY-MM-DDTHH:MM:SS)''"

definition Observation_repr :: "'t pylib \<Rightarrow> 't Observation \<Rightarrow> (string \<times> jval) list" where
  "Observation_repr L obs =
     [(''id'', JInt (Observation_id obs)), (''object'', Observation_object obs),
      (''place'', Observation_place obs), (''instrument'', Observation_instrument obs),
      (''datetime'', (case Observation_datetime obs of
                        None \<Rightarrow> JNull | Some d \<Rightarrow> JStr (isoformat L d))),
      (''observation'', Observation_observation obs), (''prop1'', Observation_prop1 obs),
      (''prop1value'', Observation_prop1value obs)]"

definition ObservationListResource_get :: "'t pylib \<Rightarrow> 't db \<Rightarrow> outcome" where
  "ObservationListResource_get L db =
     Respond 200 (Arr (map (Observation_repr L) (observations db)))"

text \<open>
  \<open>prop1\<close> is checked only when it is truthy, and stored as \<open>json_data.get('prop1')\<close>
  whatever it is. The column is declared \<open>ForeignKey('properities.id')\<close>: a value that
  is not \<open>null\<close> and is no property's key is refused by the storage at the commit.
\<close>

definition ObservationListResource_post ::
  "'t pylib \<Rightarrow> 't db \<Rightarrow> json_data \<Rightarrow> outcome \<times> 't db" where
  "ObservationListResource_post L db json_data =
    (if json_data = [] then (Respond 400 (message ''No input data provided''), db)
     else case map_of json_data ''object'' of
       None \<Rightarrow> (Respond 400 (message ''Object is required''), db)
     | Some object \<Rightarrow>
     (case map_of json_data ''place'' of
       None \<Rightarrow> (Respond 400 (message ''Place is required''), db)
     | Some place \<Rightarrow>
     (case map_of json_data ''instrument'' of
       None \<Rightarrow> (Respond 400 (message ''Instrument is required''), db)
     | Some instrument \<Rightarrow>
     (case map_of json_data ''datetime'' of
       None \<Rightarrow> (Respond 400 (message ''Datetime is required''), db)
     | Some datetime \<Rightarrow>
     (case map_of json_data ''observation'' of
       None \<Rightarrow> (Respond 400 (message ''Observation text is required''), db)
     | Some observation_text \<Rightarrow>
        if query_get_j Object_id (objects db) object = None
        then (Respond 400 (message ''Object not found''), db)
        else if query_get_j Place_id (places db) place = None
        then (Respond 400 (message ''Place not found''), db)
        else if query_get_j Instrument_id (instruments db) instrument = None
        then (Respond 400 (message ''Instrument not found''), db)
        else if (case map_of json_data ''prop1'' of
                   None \<Rightarrow> False
                 | Some p \<Rightarrow> truthy p \<and> query_get_j Property_id (properities db) p = None)
        then (Respond 400 (message ''Property not found''), db)
        else
          (case parse_datetime L datetime of
             None \<Rightarrow> (Respond 400 (message datetime_format_message), db)
           | Some observation_datetime \<Rightarrow>
              let observation =
                    \<lparr>Observation_id = next_id (map Observation_id (observations db)),
                     Observation_object = object, Observation_place = place,
                     Observation_instrument = instrument,
                     Observation_datetime = Some observation_datetime,
                     Observation_observation = observation_text,
                     Observation_prop1 = dict_get json_data ''prop1'',
                     Observation_prop1value = dict_get json_data ''prop1value''\<rparr>
              in if Observation_prop1 observation \<noteq> JNull \<and>
                    query_get_j Property_id (properities db) (Observation_prop1 observation) = None
                 then (Unhandled, db)
                 else (Respond 201 (Obj (Observation_repr L observation)),
                       db\<lparr>observations := observations db @ [observation]\<rparr>)))))))"

definition ObservationResource_get :: "'t pylib \<Rightarrow> 't db \<Rightarrow> int \<Rightarrow> outcome" where
  "ObservationResource_get L db observation_id =
    (case query_get Observation_id (observations db) observation_id of
       None \<Rightarrow> Respond 404 (message ''Observation not found'')
     | Some observation \<Rightarrow> Respond 200 (Obj (Observation_repr L observation)))"

text \<open>
  The statements of \<open>ObservationResource.put\<close> in their order: each one works on the
  row as the statements before it left it, and a \<open>return\<close> drops the row unwritten.
\<close>

definition put_statements ::
  "'t pylib \<Rightarrow> 't db \<Rightarrow> json_data \<Rightarrow> 't Observation \<Rightarrow> string + 't Observation" where
  "put_statements L db json_data observation =
     and_then (if_in_checked json_data ''object''
                 (\<lambda>v r. case query_get_j Object_id (objects db) v of
                           None \<Rightarrow> Inl ''Object not found''
                         | Some obj \<Rightarrow> Inr (r\<lparr>Observation_object := v\<rparr>)) observation)
     (\<lambda>observation.
     and_then (if_in_checked json_data ''place''
                 (\<lambda>v r. case query_get_j Place_id (places db) v of
                           None \<Rightarrow> Inl ''Place not found''
                         | Some place \<Rightarrow> Inr (r\<lparr>Observation_place := v\<rparr>)) observation)
     (\<lambda>observation.
     and_then (if_in_checked json_data ''instrument''
                 (\<lambda>v r. case query_get_j Instrument_id (instruments db) v of
                           None \<Rightarrow> Inl ''Instrument not found''
                         | Some instrument \<Rightarrow> Inr (r\<lparr>Observation_instrument := v\<rparr>)) observation)
     (\<lambda>observation.
     and_then (if_in_checked json_data ''prop1''
                 (\<lambda>v r. if truthy v
                         then (case query_get_j Property_id (properities db) v of
                                 None \<Rightarrow> Inl ''Property not found''
                               | Some p \<Rightarrow> Inr (r\<lparr>Observation_prop1 := v\<rparr>))
                         else Inr r) observation)
     (\<lambda>observation.
     and_then (if_in_checked json_data ''datetime''
                 (\<lambda>v r. case parse_datetime L v of
                           None \<Rightarrow> Inl datetime_format_message
                         | Some observation_datetime \<Rightarrow>
                             Inr (r\<lparr>Observation_datetime := Some observation_datetime\<rparr>))
                 observation)
     (\<lambda>observation.
       let observation =
             if_in json_data ''observation'' (\<lambda>v r. r\<lparr>Observation_observation := v\<rparr>) observation;
           observation =
             if_in json_data ''prop1value'' (\<lambda>v r. r\<lparr>Observation_prop1value := v\<rparr>) observation
       in Inr observation)))))"

definition ObservationResource_put ::
  "'t pylib \<Rightarrow> 't db \<Rightarrow> int \<Rightarrow> json_data \<Rightarrow> outcome \<times> 't db" where
  "ObservationResource_put L db observation_id json_data =
    (case query_get Observation_id (observations db) observation_id of
       None \<Rightarrow> (Respond 404 (message ''Observation not found''), db)
     | Some observation \<Rightarrow>
        if json_data = [] then (Respond 400 (message ''No input data provided''), db)
        else
          (case put_statements L db json_data observation of
             Inl msg \<Rightarrow> (Respond 400 (message msg), db)
           | Inr observation \<Rightarrow>
              (Respond 200 (Obj (Observation_repr L observation)),
               db\<lparr>observations := update_row Observation_id observation (observations db)\<rparr>)))"

definition ObservationResource_delete :: "'t db \<Rightarrow> int \<Rightarrow> outcome \<times> 't db" where
  "ObservationResource_delete db observation_id =
    (case query_get Observation_id (observations db) observation_id of
       None \<Rightarrow> (Respond 404 (message ''Observation not found''), db)
     | Some observation \<Rightarrow>
        (Respond 204 (message ''Observation deleted successfully''),
         db\<lparr>observations := delete_row Observation_id observation_id (observations db)\<rparr>))"

section \<open>\<open>resources.py\<close>: relationship and search resources\<close>

definition ObjectObservationsResource_get :: "'t pylib \<Rightarrow> 't db \<Rightarrow> int \<Rightarrow> outcome" where
  "ObjectObservationsResource_get L db object_id =
    (case query_get Object_id (objects db) object_id of
       None \<Rightarrow> Respond 404 (message ''Object not found'')
     | Some obj \<Rightarrow>
        Respond 200 (Arr (map (Observation_repr L)
          (filter (\<lambda>obs. Observation_object obs = JInt object_id) (observations db)))))"

definition PlaceObservationsResource_get :: "'t pylib \<Rightarrow> 't db \<Rightarrow> int \<Rightarrow> outcome" where
  "PlaceObservationsResource_get L db place_id =
    (case query_get Place_id (places db) place_id of
       None \<Rightarrow> Respond 404 (message ''Place not found'')
     | Some place \<Rightarrow>
        Respond 200 (Arr (map (Observation_repr L)
          (filter (\<lambda>obs. Observation_place obs = JInt place_id) (observations db)))))"

definition InstrumentObservationsResource_get :: "'t pylib \<Rightarrow> 't db \<Rightarrow> int \<Rightarrow> outcome" where
  "InstrumentObservationsResource_get L db instrument_id =
    (case query_get Instrument_id (instruments db) instrument_id of
       None \<Rightarrow> Respond 404 (message ''Instrument not found'')
     | Some instrument \<Rightarrow>
        Respond 200 (Arr (map (Observation_repr L)
          (filter (\<lambda>obs. Observation_instrument obs = JInt instrument_id) (observations db)))))"

text \<open>
  One filter block of the search:
  \<open>if param: try: v = parse(param); query = query.filter(cond v) except: return msg, 400\<close>.
  \<open>request.args.get\<close> gives \<open>None\<close> for a parameter that is not in the query string, and
  an empty text is falsy as well.
\<close>

definition filter_block ::
  "string option \<Rightarrow> (string \<Rightarrow> 'v option) \<Rightarrow> ('v \<Rightarrow> 'r \<Rightarrow> bool) \<Rightarrow> string \<Rightarrow> 'r list
     \<Rightarrow> string + 'r list" where
  "filter_block param parse cond msg query =
     (case param of
        None \<Rightarrow> Inr query
      | Some s \<Rightarrow>
          if s = [] then Inr query
          else (case parse s of
                  None \<Rightarrow> Inl msg
                | Some v \<Rightarrow> Inr (filter (cond v) query)))"

text \<open>The comparisons of the query; a \<open>NULL\<close> timestamp satisfies neither bound.\<close>

definition datetime_ge :: "'t::ord \<Rightarrow> 't Observation \<Rightarrow> bool" where
  "datetime_ge v obs = (case Observation_datetime obs of None \<Rightarrow> False | Some d \<Rightarrow> d \<ge> v)"

definition datetime_le :: "'t::ord \<Rightarrow> 't Observation \<Rightarrow> bool" where
  "datetime_le v obs = (case Observation_datetime obs of None \<Rightarrow> False | Some d \<Rightarrow> d \<le> v)"

definition ObservationSearchResource_get ::
  "('t::ord) pylib \<Rightarrow> 't db \<Rightarrow> string option \<Rightarrow> string option \<Rightarrow> string option
     \<Rightarrow> string option \<Rightarrow> string option \<Rightarrow> outcome" where
  "ObservationSearchResource_get L db start_date end_date object_id place_id instrument_id =
    (case
       and_then (filter_block start_date (\<lambda>s. fromisoformat L (replace_Z s)) datetime_ge
                   ''Invalid start_date format. Use ISO format (YYYY-MM-DDTHH:MM:SS)''
                   (observations db))
       (\<lambda>query.
       and_then (filter_block end_date (\<lambda>s. fromisoformat L (replace_Z s)) datetime_le
                   ''Invalid end_date format. Use ISO format (YYYY-MM-DDTHH:MM:SS)'' query)
       (\<lambda>query.
       and_then (filter_block object_id (int_of_str L) (\<lambda>v obs. Observation_object obs = JInt v)
                   ''Invalid object_id format. Must be an integer'' query)
       (\<lambda>query.
       and_then (filter_block place_id (int_of_str L) (\<lambda>v obs. Observation_place obs = JInt v)
                   ''Invalid place_id format. Must be an integer'' query)
       (\<lambda>query.
       filter_block instrument_id (int_of_str L) (\<lambda>v obs. Observation_instrument obs = JInt v)
                   ''Invalid instrument_id format. Must be an integer'' query))))
     of Inl msg \<Rightarrow> Respond 400 (message msg)
      | Inr observations_found \<Rightarrow> Respond 200 (Arr (map (Observation_repr L) observations_found)))"

section \<open>A sample library and a sample database\<close>

text \<open>
  A timestamp as a \<open>DateTime\<close> column holds it: the wall-clock fields, without an
  offset, compared field by field from the year down.
\<close>

datatype stamp = Stamp int int int int int int

fun stamp_key :: "stamp \<Rightarrow> int" where
  "stamp_key (Stamp y mo d h mi s) = ((((y * 12 + mo) * 31 + d) * 24 + h) * 60 + mi) * 60 + s"

instantiation stamp :: ord
begin

definition less_eq_stamp :: "stamp \<Rightarrow> stamp \<Rightarrow> bool" where
  "less_eq_stamp a b = (stamp_key a \<le> stamp_key b)"

definition less_stamp :: "stamp \<Rightarrow> stamp \<Rightarrow> bool" where
  "less_stamp a b = (stamp_key a < stamp_key b)"

instance ..

end

definition digit_of :: "char \<Rightarrow> nat option" where
  "digit_of c = map_of (zip ''0123456789'' [0, 1, 2, 3, 4, 5, 6, 7, 8, 9]) c"

fun digits_value :: "nat \<Rightarrow> string \<Rightarrow> nat option" where
  "digits_value acc [] = Some acc"
| "digits_value acc (c # cs) =
     (case digit_of c of None \<Rightarrow> None | Some d \<Rightarrow> digits_value (10 * acc + d) cs)"

definition read_nat :: "string \<Rightarrow> nat option" where
  "read_nat s = (if s = [] then None else digits_value 0 s)"

text \<open>
  The texts \<open>YYYY-MM-DDTHH:MM:SS\<close> and \<open>YYYY-MM-DDTHH:MM:SS+HH:MM\<close>, on which
  every version of \<open>datetime.fromisoformat\<close> agrees; the offset is not stored.
\<close>

definition offset_ok :: "string \<Rightarrow> bool" where
  "offset_ok s =
     (s = [] \<or>
      (length s = 6 \<and> (s ! 0 = CHR ''+'' \<or> s ! 0 = CHR ''-'') \<and> s ! 3 = CHR '':'' \<and>
       (case (read_nat (take 2 (drop 1 s)), read_nat (drop 4 s)) of
          (Some h, Some m) \<Rightarrow> h < 24 \<and> m < 60
        | _ \<Rightarrow> False)))"

definition sample_fromisoformat :: "string \<Rightarrow> stamp option" where
  "sample_fromisoformat s =
     (if 19 \<le> length s \<and> s ! 4 = CHR ''-'' \<and> s ! 7 = CHR ''-'' \<and> s ! 10 = CHR ''T'' \<and>
         s ! 13 = CHR '':'' \<and> s ! 16 = CHR '':'' \<and> offset_ok (drop 19 s)
      then (case (read_nat (take 4 s), read_nat (take 2 (drop 5 s)),
                  read_nat (take 2 (drop 8 s)), read_nat (take 2 (drop 11 s)),
                  read_nat (take 2 (drop 14 s)), read_nat (take 2 (drop 17 s))) of
              (Some y, Some mo, Some d, Some h, Some mi, Some sec) \<Rightarrow>
                if 1 \<le> y \<and> 1 \<le> mo \<and> mo \<le> 12 \<and> 1 \<le> d \<and> d \<le> 31 \<and> h < 24 \<and> mi < 60 \<and> sec < 60
                then Some (Stamp (int y) (int mo) (int d) (int h) (int mi) (int sec)) else None
            | _ \<Rightarrow> None)
      else None)"

definition pad2 :: "int \<Rightarrow> string" where
  "pad2 n = [''0123456789'' ! nat (n div 10 mod 10), ''0123456789'' ! nat (n mod 10)]"

fun sample_isoformat :: "stamp \<Rightarrow> string" where
  "sample_isoformat (Stamp y mo d h mi s) =
     pad2 (y div 100) @ pad2 (y mod 100) @ ''-'' @ pad2 mo @ ''-'' @ pad2 d @ ''T'' @
     pad2 h @ '':'' @ pad2 mi @ '':'' @ pad2 s"

text \<open>Decimal texts with an optional minus sign, as \<open>int\<close> reads them.\<close>

fun sample_int :: "string \<Rightarrow> int option" where
  "sample_int [] = None"
| "sample_int (c # cs) =
     (if c = CHR ''-'' then map_option (\<lambda>n. - int n) (read_nat cs)
      else map_option int (read_nat (c # cs)))"

definition sample_lib :: "stamp pylib" where
  "sample_lib = \<lparr>fromisoformat = sample_fromisoformat, isoformat = sample_isoformat,
                  int_of_str = sample_int\<rparr>"

text \<open>
  The rows the test suite seeds (\<open>tests.py\<close>), with fixed dates, and one more row in
  each parent table that nothing refers to.
\<close>

definition seed_db :: "stamp db" where
  "seed_db =
    \<lparr>types = [\<lparr>Type_id = 1, Type_name = JStr ''Galaxy''\<rparr>,
              \<lparr>Type_id = 2, Type_name = JStr ''Planet''\<rparr>,
              \<lparr>Type_id = 3, Type_name = JStr ''Comet''\<rparr>],
     properities = [\<lparr>Property_id = 1, Property_name = JStr ''Magnitude'',
                      Property_valueType = JStr ''float''\<rparr>,
                    \<lparr>Property_id = 2, Property_name = JStr ''Distance'',
                      Property_valueType = JStr ''string''\<rparr>,
                    \<lparr>Property_id = 3, Property_name = JStr ''Colour'',
                      Property_valueType = JStr ''string''\<rparr>],
     places = [\<lparr>Place_id = 1, Place_name = JStr ''Royal Observatory Greenwich'',
                 Place_lat = JStr ''51.4778'', Place_lon = JStr ''0.0015'',
                 Place_alt = JStr ''45m'', Place_timezone = JStr ''Europe/London''\<rparr>,
               \<lparr>Place_id = 2, Place_name = JStr ''Mauna Kea Observatory'',
                 Place_lat = JStr ''19.8208'', Place_lon = JStr ''-155.4681'',
                 Place_alt = JStr ''4205m'', Place_timezone = JStr ''Pacific/Honolulu''\<rparr>,
               \<lparr>Place_id = 3, Place_name = JStr ''Backyard'',
                 Place_lat = JStr ''50.0'', Place_lon = JStr ''20.0'',
                 Place_alt = JNull, Place_timezone = JNull\<rparr>],
     instruments = [\<lparr>Instrument_id = 1, Instrument_name = JStr ''Celestron NexStar 8SE'',
                      Instrument_aperture = JStr ''203.2mm'', Instrument_power = JStr ''2032mm''\<rparr>,
                    \<lparr>Instrument_id = 2, Instrument_name = JStr ''Subaru Telescope'',
                      Instrument_aperture = JStr ''8.2m'', Instrument_power = JStr ''f/12.2''\<rparr>,
                    \<lparr>Instrument_id = 3, Instrument_name = JStr ''Binoculars'',
                      Instrument_aperture = JNull, Instrument_power = JNull\<rparr>],
     objects = [\<lparr>Object_id = 1, Object_name = JStr ''Andromeda Galaxy'',
                  Object_desination = JStr ''M31'', Object_type = JInt 1,
                  Object_props = JStr ''{}''\<rparr>,
                \<lparr>Object_id = 2, Object_name = JStr ''Mars'',
                  Object_desination = JStr ''Sol d'', Object_type = JInt 2,
                  Object_props = JStr ''{}''\<rparr>,
                \<lparr>Object_id = 3, Object_name = JStr ''Jupiter'',
                  Object_desination = JNull, Object_type = JInt 2,
                  Object_props = JNull\<rparr>],
     observations =
       [\<lparr>Observation_id = 1, Observation_object = JInt 1, Observation_place = JInt 1,
          Observation_instrument = JInt 1,
          Observation_datetime = Some (Stamp 2025 1 3 0 0 0),
          Observation_observation = JStr ''Clear spiral structure visible.'',
          Observation_prop1 = JInt 1, Observation_prop1value = JStr ''3.4''\<rparr>,
        \<lparr>Observation_id = 2, Observation_object = JInt 2, Observation_place = JInt 2,
          Observation_instrument = JInt 2,
          Observation_datetime = Some (Stamp 2025 1 2 12 0 0),
          Observation_observation = JStr ''Polar ice caps visible.'',
          Observation_prop1 = JInt 2, Observation_prop1value = JStr ''78.34 million km''\<rparr>,
        \<lparr>Observation_id = 3, Observation_object = JInt 1, Observation_place = JInt 2,
          Observation_instrument = JInt 2,
          Observation_datetime = Some (Stamp 2024 12 27 0 0 0),
          Observation_observation = JStr ''Dust lanes and central core.'',
          Observation_prop1 = JInt 1, Observation_prop1value = JStr ''3.2''\<rparr>]\<rparr>"

section \<open>The search as the specification words it\<close>

text \<open>
  The value of one filter of the query string: no filter (\<open>Some None\<close>) when the
  parameter is absent or empty, the parsed value when its text parses, and \<open>None\<close>
  when it does not.
\<close>

definition filter_value :: "(string \<Rightarrow> 'v option) \<Rightarrow> string option \<Rightarrow> 'v option option" where
  "filter_value parse param =
     (case param of
        None \<Rightarrow> Some None
      | Some s \<Rightarrow> if s = [] then Some None else map_option Some (parse s))"

text \<open>
  The conjunction of the supplied filters: the timestamp within the inclusive bounds, and
  each supplied id equal to the Observation's field.
\<close>

definition satisfies_filters ::
  "('t::ord) option \<Rightarrow> 't option \<Rightarrow> int option \<Rightarrow> int option \<Rightarrow> int option
     \<Rightarrow> 't Observation \<Rightarrow> bool" where
  "satisfies_filters sd ed oid pid iid obs =
     ((case sd of None \<Rightarrow> True
       | Some v \<Rightarrow> (case Observation_datetime obs of None \<Rightarrow> False | Some d \<Rightarrow> v \<le> d)) \<and>
      (case ed of None \<Rightarrow> True
       | Some v \<Rightarrow> (case Observation_datetime obs of None \<Rightarrow> False | Some d \<Rightarrow> d \<le> v)) \<and>
      (case oid of None \<Rightarrow> True | Some v \<Rightarrow> Observation_object obs = JInt v) \<and>
      (case pid of None \<Rightarrow> True | Some v \<Rightarrow> Observation_place obs = JInt v) \<and>
      (case iid of None \<Rightarrow> True | Some v \<Rightarrow> Observation_instrument obs = JInt v))"

text \<open>
  The payload of \<open>test_create_observation\<close> (\<open>tests.py\<close>), with the timestamp of the
  specification's scenario.
\<close>

definition new_observation :: json_data where
  "new_observation =
     [(''object'', JInt 2), (''place'', JInt 1), (''instrument'', JInt 1),
      (''datetime'', JStr ''2025-01-01T00:00:00Z''),
      (''observation'', JStr ''New test observation''),
      (''prop1'', JInt 1), (''prop1value'', JStr ''4.2'')]"

section \<open>The body of an error\<close>

text \<open>
  What the specification asks of a response that is not a success with content: its
  body is a JSON object with exactly one field, the string \<open>message\<close>. An exception
  that leaves the handler is no response of the handler.
\<close>

fun message_unless_success :: "outcome \<Rightarrow> bool" where
  "message_unless_success (Respond st b) =
     (st = 200 \<or> st = 201 \<or> (\<exists>m. b = Obj [(''message'', JStr m)]))"
| "message_unless_success (Abort st) = False"
| "message_unless_success Unhandled = True"

section \<open>\<open>astronomy_api.py\<close>: the stand-alone variant\<close>


















subsection \<open>A sample of \<open>load\<close>\<close>



section \<open>Lookups, updates and deletions of rows\<close>

lemma query_get_None_iff: "query_get pk rows k = None \<longleftrightarrow> k \<notin> pk ` set rows"
  by (auto simp: query_get_def find_None_iff)


lemma query_get_delete_row: "query_get pk (delete_row pk k rows) k = None"
  by (auto simp: query_get_None_iff delete_row_def)

lemma not_in_ids: "k \<notin> pk ` set rows \<Longrightarrow> query_get pk rows k = None"
  by (simp add: query_get_None_iff)

lemma in_ids: "k \<in> pk ` set rows \<Longrightarrow> \<exists>r. query_get pk rows k = Some r"
  using query_get_None_iff [of pk rows k] by auto

subsection \<open>Deleting a parent entity\<close>

lemma TypeResource_delete_cases:
  "((k \<notin> Type_id ` set (types db) \<longrightarrow>
      TypeResource_delete db k = (Respond 404 (message ''Type not found''), db)) \<and>
   (k \<in> Type_id ` set (types db) \<and> (\<exists>obj\<in>set (objects db). Object_type obj = JInt k) \<longrightarrow>
      fst (TypeResource_delete db k) = Respond 400 (message ''Cannot delete type that is in use'') \<and>
      TypeResource_get (snd (TypeResource_delete db k)) k = TypeResource_get db k \<and>
      status_of (TypeResource_get db k) = Some 200) \<and>
   (k \<in> Type_id ` set (types db) \<and> \<not> (\<exists>obj\<in>set (objects db). Object_type obj = JInt k) \<longrightarrow>
      fst (TypeResource_delete db k) = Respond 204 (message ''Type deleted successfully'') \<and>
      TypeResource_get (snd (TypeResource_delete db k)) k = Respond 404 (message ''Type not found'')))"
  by (auto simp: TypeResource_delete_def TypeResource_get_def not_in_ids
        query_get_delete_row filter_empty_conv dest!: in_ids)

lemma PropertyResource_delete_cases:
  "((k \<notin> Property_id ` set (properities db) \<longrightarrow>
      PropertyResource_delete db k = (Respond 404 (message ''Property not found''), db)) \<and>
   (k \<in> Property_id ` set (properities db) \<and> (\<exists>obs\<in>set (observations db). Observation_prop1 obs = JInt k) \<longrightarrow>
      fst (PropertyResource_delete db k) = Respond 400 (message ''Cannot delete property that is in use'') \<and>
      PropertyResource_get (snd (PropertyResource_delete db k)) k = PropertyResource_get db k \<and>
      status_of (PropertyResource_get db k) = Some 200) \<and>
   (k \<in> Property_id ` set (properities db) \<and> \<not> (\<exists>obs\<in>set (observations db). Observation_prop1 obs = JInt k) \<longrightarrow>
      fst (PropertyResource_delete db k) = Respond 204 (message ''Property deleted successfully'') \<and>
      PropertyResource_get (snd (PropertyResource_delete db k)) k = Respond 404 (message ''Property not found'')))"
  by (auto simp: PropertyResource_delete_def PropertyResource_get_def not_in_ids
        query_get_delete_row filter_empty_conv dest!: in_ids)

lemma PlaceResource_delete_cases:
  "((k \<notin> Place_id ` set (places db) \<longrightarrow>
      PlaceResource_delete db k = (Respond 404 (message ''Place not found''), db)) \<and>
   (k \<in> Place_id ` set (places db) \<and> (\<exists>obs\<in>set (observations db). Observation_place obs = JInt k) \<longrightarrow>
      fst (PlaceResource_delete db k) = Respond 400 (message ''Cannot delete place that is in use'') \<and>
      PlaceResource_get (snd (PlaceResource_delete db k)) k = PlaceResource_get db k \<and>
      status_of (PlaceResource_get db k) = Some 200) \<and>
   (k \<in> Place_id ` set (places db) \<and> \<not> (\<exists>obs\<in>set (observations db). Observation_place obs = JInt k) \<longrightarrow>
      fst (PlaceResource_delete db k) = Respond 204 (message ''Place deleted successfully'') \<and>
      PlaceResource_get (snd (PlaceResource_delete db k)) k = Respond 404 (message ''Place not found'')))"
  by (auto simp: PlaceResource_delete_def PlaceResource_get_def not_in_ids
        query_get_delete_row filter_empty_conv dest!: in_ids)

lemma InstrumentResource_delete_cases:
  "((k \<notin> Instrument_id ` set (instruments db) \<longrightarrow>
      InstrumentResource_delete db k = (Respond 404 (message ''Instrument not found''), db)) \<and>
   (k \<in> Instrument_id ` set (instruments db) \<and> (\<exists>obs\<in>set (observations db). Observation_instrument obs = JInt k) \<longrightarrow>
      fst (InstrumentResource_delete db k) = Respond 400 (message ''Cannot delete instrument that is in use'') \<and>
      InstrumentResource_get (snd (InstrumentResource_delete db k)) k = InstrumentResource_get db k \<and>
      status_of (InstrumentResource_get db k) = Some 200) \<and>
   (k \<in> Instrument_id ` set (instruments db) \<and> \<not> (\<exists>obs\<in>set (observations db). Observation_instrument obs = JInt k) \<longrightarrow>
      fst (InstrumentResource_delete db k) = Respond 204 (message ''Instrument deleted successfully'') \<and>
      InstrumentResource_get (snd (InstrumentResource_delete db k)) k = Respond 404 (message ''Instrument not found'')))"
  by (auto simp: InstrumentResource_delete_def InstrumentResource_get_def not_in_ids
        query_get_delete_row filter_empty_conv dest!: in_ids)

lemma ObjectResource_delete_cases:
  "((k \<notin> Object_id ` set (objects db) \<longrightarrow>
      ObjectResource_delete db k = (Respond 404 (message ''Object not found''), db)) \<and>
   (k \<in> Object_id ` set (objects db) \<and> (\<exists>obs\<in>set (observations db). Observation_object obs = JInt k) \<longrightarrow>
      fst (ObjectResource_delete db k) = Respond 400 (message ''Cannot delete object that is in use'') \<and>
      ObjectResource_get (snd (ObjectResource_delete db k)) k = ObjectResource_get db k \<and>
      status_of (ObjectResource_get db k) = Some 200) \<and>
   (k \<in> Object_id ` set (objects db) \<and> \<not> (\<exists>obs\<in>set (observations db). Observation_object obs = JInt k) \<longrightarrow>
      fst (ObjectResource_delete db k) = Respond 204 (message ''Object deleted successfully'') \<and>
      ObjectResource_get (snd (ObjectResource_delete db k)) k = Respond 404 (message ''Object not found'')))"
  by (auto simp: ObjectResource_delete_def ObjectResource_get_def not_in_ids
        query_get_delete_row filter_empty_conv dest!: in_ids)

text \<open>
  C1. For each parent entity (Type, Property, Place, Instrument, Object) and every id
  \<open>k\<close>: \<open>DELETE\<close> answers 404 when no row has the id; when a row has it and a
  dependent row refers to it (an Object to the Type, an Observation to the others) it
  answers 400, and a following \<open>GET\<close> answers 200 as before; when a row has it and
  nothing refers to it, it answers 204 and a following \<open>GET\<close> answers 404.
\<close>

theorem delete_parent_entity:
  "((k \<notin> Type_id ` set (types db) \<longrightarrow>
      TypeResource_delete db k = (Respond 404 (message ''Type not found''), db)) \<and>
   (k \<in> Type_id ` set (types db) \<and> (\<exists>obj\<in>set (objects db). Object_type obj = JInt k) \<longrightarrow>
      fst (TypeResource_delete db k) = Respond 400 (message ''Cannot delete type that is in use'') \<and>
      TypeResource_get (snd (TypeResource_delete db k)) k = TypeResource_get db k \<and>
      status_of (TypeResource_get db k) = Some 200) \<and>
   (k \<in> Type_id ` set (types db) \<and> \<not> (\<exists>obj\<in>set (objects db). Object_type obj = JInt k) \<longrightarrow>
      fst (TypeResource_delete db k) = Respond 204 (message ''Type deleted successfully'') \<and>
      TypeResource_get (snd (TypeResource_delete db k)) k = Respond 404 (message ''Type not found''))) \<and>
   ((k \<notin> Property_id ` set (properities db) \<longrightarrow>
      PropertyResource_delete db k = (Respond 404 (message ''Property not found''), db)) \<and>
   (k \<in> Property_id ` set (properities db) \<and> (\<exists>obs\<in>set (observations db). Observation_prop1 obs = JInt k) \<longrightarrow>
      fst (PropertyResource_delete db k) = Respond 400 (message ''Cannot delete property that is in use'') \<and>
      PropertyResource_get (snd (PropertyResource_delete db k)) k = PropertyResource_get db k \<and>
      status_of (PropertyResource_get db k) = Some 200) \<and>
   (k \<in> Property_id ` set (properities db) \<and> \<not> (\<exists>obs\<in>set (observations db). Observation_prop1 obs = JInt k) \<longrightarrow>
      fst (PropertyResource_delete db k) = Respond 204 (message ''Property deleted successfully'') \<and>
      PropertyResource_get (snd (PropertyResource_delete db k)) k = Respond 404 (message ''Property not found''))) \<and>
   ((k \<notin> Place_id ` set (places db) \<longrightarrow>
      PlaceResource_delete db k = (Respond 404 (message ''Place not found''), db)) \<and>
   (k \<in> Place_id ` set (places db) \<and> (\<exists>obs\<in>set (observations db). Observation_place obs = JInt k) \<longrightarrow>
      fst (PlaceResource_delete db k) = Respond 400 (message ''Cannot delete place that is in use'') \<and>
      PlaceResource_get (snd (PlaceResource_delete db k)) k = PlaceResource_get db k \<and>
      status_of (PlaceResource_get db k) = Some 200) \<and>
   (k \<in> Place_id ` set (places db) \<and> \<not> (\<exists>obs\<in>set (observations db). Observation_place obs = JInt k) \<longrightarrow>
      fst (PlaceResource_delete db k) = Respond 204 (message ''Place deleted successfully'') \<and>
      PlaceResource_get (snd (PlaceResource_delete db k)) k = Respond 404 (message ''Place not found''))) \<and>
   ((k \<notin> Instrument_id ` set (instruments db) \<longrightarrow>
      InstrumentResource_delete db k = (Respond 404 (message ''Instrument not found''), db)) \<and>
   (k \<in> Instrument_id ` set (instruments db) \<and> (\<exists>obs\<in>set (observations db). Observation_instrument obs = JInt k) \<longrightarrow>
      fst (InstrumentResource_delete db k) = Respond 400 (message ''Cannot delete instrument that is in use'') \<and>
      InstrumentResource_get (snd (InstrumentResource_delete db k)) k = InstrumentResource_get db k \<and>
      status_of (InstrumentResource_get db k) = Some 200) \<and>
   (k \<in> Instrument_id ` set (instruments db) \<and> \<not> (\<exists>obs\<in>set (observations db). Observation_instrument obs = JInt k) \<longrightarrow>
      fst (InstrumentResource_delete db k) = Respond 204 (message ''Instrument deleted successfully'') \<and>
      InstrumentResource_get (snd (InstrumentResource_delete db k)) k = Respond 404 (message ''Instrument not found''))) \<and>
   ((k \<notin> Object_id ` set (objects db) \<longrightarrow>
      ObjectResource_delete db k = (Respond 404 (message ''Object not found''), db)) \<and>
   (k \<in> Object_id ` set (objects db) \<and> (\<exists>obs\<in>set (observations db). Observation_object obs = JInt k) \<longrightarrow>
      fst (ObjectResource_delete db k) = Respond 400 (message ''Cannot delete object that is in use'') \<and>
      ObjectResource_get (snd (ObjectResource_delete db k)) k = ObjectResource_get db k \<and>
      status_of (ObjectResource_get db k) = Some 200) \<and>
   (k \<in> Object_id ` set (objects db) \<and> \<not> (\<exists>obs\<in>set (observations db). Observation_object obs = JInt k) \<longrightarrow>
      fst (ObjectResource_delete db k) = Respond 204 (message ''Object deleted successfully'') \<and>
      ObjectResource_get (snd (ObjectResource_delete db k)) k = Respond 404 (message ''Object not found'')))"
  by (intro conjI TypeResource_delete_cases [THEN conjunct1] TypeResource_delete_cases [THEN conjunct2, THEN conjunct1] TypeResource_delete_cases [THEN conjunct2, THEN conjunct2] PropertyResource_delete_cases [THEN conjunct1] PropertyResource_delete_cases [THEN conjunct2, THEN conjunct1] PropertyResource_delete_cases [THEN conjunct2, THEN conjunct2] PlaceResource_delete_cases [THEN conjunct1] PlaceResource_delete_cases [THEN conjunct2, THEN conjunct1] PlaceResource_delete_cases [THEN conjunct2, THEN conjunct2] InstrumentResource_delete_cases [THEN conjunct1] InstrumentResource_delete_cases [THEN conjunct2, THEN conjunct1] InstrumentResource_delete_cases [THEN conjunct2, THEN conjunct2] ObjectResource_delete_cases [THEN conjunct1] ObjectResource_delete_cases [THEN conjunct2, THEN conjunct1] ObjectResource_delete_cases [THEN conjunct2, THEN conjunct2])
text \<open>
  On the sample database: id 99 is in no table, the rows with id 1 are referred to, the
  rows with id 3 are not.
\<close>

theorem delete_parent_entity_witness:
  "((99::int) \<notin> Type_id ` set (types seed_db) \<and>
    TypeResource_delete seed_db 99 = (Respond 404 (message ''Type not found''), seed_db)) \<and>
   ((1::int) \<in> Type_id ` set (types seed_db) \<and> (\<exists>obj\<in>set (objects seed_db). Object_type obj = JInt 1) \<and>
    fst (TypeResource_delete seed_db 1) = Respond 400 (message ''Cannot delete type that is in use'') \<and>
    status_of (TypeResource_get (snd (TypeResource_delete seed_db 1)) 1) = Some 200) \<and>
   ((3::int) \<in> Type_id ` set (types seed_db) \<and> \<not> (\<exists>obj\<in>set (objects seed_db). Object_type obj = JInt 3) \<and>
    fst (TypeResource_delete seed_db 3) = Respond 204 (message ''Type deleted successfully'') \<and>
    TypeResource_get (snd (TypeResource_delete seed_db 3)) 3 = Respond 404 (message ''Type not found'')) \<and>
   ((99::int) \<notin> Property_id ` set (properities seed_db) \<and>
    PropertyResource_delete seed_db 99 = (Respond 404 (message ''Property not found''), seed_db)) \<and>
   ((1::int) \<in> Property_id ` set (properities seed_db) \<and> (\<exists>obs\<in>set (observations seed_db). Observation_prop1 obs = JInt 1) \<and>
    fst (PropertyResource_delete seed_db 1) = Respond 400 (message ''Cannot delete property that is in use'') \<and>
    status_of (PropertyResource_get (snd (PropertyResource_delete seed_db 1)) 1) = Some 200) \<and>
   ((3::int) \<in> Property_id ` set (properities seed_db) \<and> \<not> (\<exists>obs\<in>set (observations seed_db). Observation_prop1 obs = JInt 3) \<and>
    fst (PropertyResource_delete seed_db 3) = Respond 204 (message ''Property deleted successfully'') \<and>
    PropertyResource_get (snd (PropertyResource_delete seed_db 3)) 3 = Respond 404 (message ''Property not found'')) \<and>
   ((99::int) \<notin> Place_id ` set (places seed_db) \<and>
    PlaceResource_delete seed_db 99 = (Respond 404 (message ''Place not found''), seed_db)) \<and>
   ((1::int) \<in> Place_id ` set (places seed_db) \<and> (\<exists>obs\<in>set (observations seed_db). Observation_place obs = JInt 1) \<and>
    fst (PlaceResource_delete seed_db 1) = Respond 400 (message ''Cannot delete place that is in use'') \<and>
    status_of (PlaceResource_get (snd (PlaceResource_delete seed_db 1)) 1) = Some 200) \<and>
   ((3::int) \<in> Place_id ` set (places seed_db) \<and> \<not> (\<exists>obs\<in>set (observations seed_db). Observation_place obs = JInt 3) \<and>
    fst (PlaceResource_delete seed_db 3) = Respond 204 (message ''Place deleted successfully'') \<and>
    PlaceResource_get (snd (PlaceResource_delete seed_db 3)) 3 = Respond 404 (message ''Place not found'')) \<and>
   ((99::int) \<notin> Instrument_id ` set (instruments seed_db) \<and>
    InstrumentResource_delete seed_db 99 = (Respond 404 (message ''Instrument not found''), seed_db)) \<and>
   ((1::int) \<in> Instrument_id ` set (instruments seed_db) \<and> (\<exists>obs\<in>set (observations seed_db). Observation_instrument obs = JInt 1) \<and>
    fst (InstrumentResource_delete seed_db 1) = Respond 400 (message ''Cannot delete instrument that is in use'') \<and>
    status_of (InstrumentResource_get (snd (InstrumentResource_delete seed_db 1)) 1) = Some 200) \<and>
   ((3::int) \<in> Instrument_id ` set (instruments seed_db) \<and> \<not> (\<exists>obs\<in>set (observations seed_db). Observation_instrument obs = JInt 3) \<and>
    fst (InstrumentResource_delete seed_db 3) = Respond 204 (message ''Instrument deleted successfully'') \<and>
    InstrumentResource_get (snd (InstrumentResource_delete seed_db 3)) 3 = Respond 404 (message ''Instrument not found'')) \<and>
   ((99::int) \<notin> Object_id ` set (objects seed_db) \<and>
    ObjectResource_delete seed_db 99 = (Respond 404 (message ''Object not found''), seed_db)) \<and>
   ((1::int) \<in> Object_id ` set (objects seed_db) \<and> (\<exists>obs\<in>set (observations seed_db). Observation_object obs = JInt 1) \<and>
    fst (ObjectResource_delete seed_db 1) = Respond 400 (message ''Cannot delete object that is in use'') \<and>
    status_of (ObjectResource_get (snd (ObjectResource_delete seed_db 1)) 1) = Some 200) \<and>
   ((3::int) \<in> Object_id ` set (objects seed_db) \<and> \<not> (\<exists>obs\<in>set (observations seed_db). Observation_object obs = JInt 3) \<and>
    fst (ObjectResource_delete seed_db 3) = Respond 204 (message ''Object deleted successfully'') \<and>
    ObjectResource_get (snd (ObjectResource_delete seed_db 3)) 3 = Respond 404 (message ''Object not found''))"
proof -
  have h:
    "(99::int) \<notin> Type_id ` set (types seed_db)"
    "(1::int) \<in> Type_id ` set (types seed_db)"
    "\<exists>obj\<in>set (objects seed_db). Object_type obj = JInt 1"
    "(3::int) \<in> Type_id ` set (types seed_db)"
    "\<not> (\<exists>obj\<in>set (objects seed_db). Object_type obj = JInt 3)"
    "(99::int) \<notin> Property_id ` set (properities seed_db)"
    "(1::int) \<in> Property_id ` set (properities seed_db)"
    "\<exists>obs\<in>set (observations seed_db). Observation_prop1 obs = JInt 1"
    "(3::int) \<in> Property_id ` set (properities seed_db)"
    "\<not> (\<exists>obs\<in>set (observations seed_db). Observation_prop1 obs = JInt 3)"
    "(99::int) \<notin> Place_id ` set (places seed_db)"
    "(1::int) \<in> Place_id ` set (places seed_db)"
    "\<exists>obs\<in>set (observations seed_db). Observation_place obs = JInt 1"
    "(3::int) \<in> Place_id ` set (places seed_db)"
    "\<not> (\<exists>obs\<in>set (observations seed_db). Observation_place obs = JInt 3)"
    "(99::int) \<notin> Instrument_id ` set (instruments seed_db)"
    "(1::int) \<in> Instrument_id ` set (instruments seed_db)"
    "\<exists>obs\<in>set (observations seed_db). Observation_instrument obs = JInt 1"
    "(3::int) \<in> Instrument_id ` set (instruments seed_db)"
    "\<not> (\<exists>obs\<in>set (observations seed_db). Observation_instrument obs = JInt 3)"
    "(99::int) \<notin> Object_id ` set (objects seed_db)"
    "(1::int) \<in> Object_id ` set (objects seed_db)"
    "\<exists>obs\<in>set (observations seed_db). Observation_object obs = JInt 1"
    "(3::int) \<in> Object_id ` set (objects seed_db)"
    "\<not> (\<exists>obs\<in>set (observations seed_db). Observation_object obs = JInt 3)"
    by (simp_all add: seed_db_def)
  show ?thesis
    using delete_parent_entity [of 99 seed_db] delete_parent_entity [of 1 seed_db]
      delete_parent_entity [of 3 seed_db]
    by (simp add: h)
qed

subsection \<open>Observations of one parent\<close>

text \<open>
  C6. For every id \<open>k\<close>, each of the three relationship endpoints answers 404 when no
  parent row has the id, and otherwise answers 200 with exactly the Observations whose
  foreign key is \<open>k\<close>, in storage order.
\<close>

theorem parent_observations:
  "(k \<notin> Object_id ` set (objects db) \<longrightarrow>
      ObjectObservationsResource_get L db k = Respond 404 (message ''Object not found'')) \<and>
   (k \<in> Object_id ` set (objects db) \<longrightarrow>
      ObjectObservationsResource_get L db k =
        Respond 200 (Arr (map (Observation_repr L)
          (filter (\<lambda>obs. Observation_object obs = JInt k) (observations db))))) \<and>
   (k \<notin> Place_id ` set (places db) \<longrightarrow>
      PlaceObservationsResource_get L db k = Respond 404 (message ''Place not found'')) \<and>
   (k \<in> Place_id ` set (places db) \<longrightarrow>
      PlaceObservationsResource_get L db k =
        Respond 200 (Arr (map (Observation_repr L)
          (filter (\<lambda>obs. Observation_place obs = JInt k) (observations db))))) \<and>
   (k \<notin> Instrument_id ` set (instruments db) \<longrightarrow>
      InstrumentObservationsResource_get L db k =
        Respond 404 (message ''Instrument not found'')) \<and>
   (k \<in> Instrument_id ` set (instruments db) \<longrightarrow>
      InstrumentObservationsResource_get L db k =
        Respond 200 (Arr (map (Observation_repr L)
          (filter (\<lambda>obs. Observation_instrument obs = JInt k) (observations db)))))"
  by (auto simp: ObjectObservationsResource_get_def PlaceObservationsResource_get_def
        InstrumentObservationsResource_get_def not_in_ids dest!: in_ids)

text \<open>
  On the sample database: no parent has id 99; object 1 has the observations 1 and 3,
  place 1 has observation 1, instrument 2 has the observations 2 and 3.
\<close>

theorem parent_observations_witness:
  "(99::int) \<notin> Object_id ` set (objects seed_db) \<and>
   (99::int) \<notin> Place_id ` set (places seed_db) \<and>
   (99::int) \<notin> Instrument_id ` set (instruments seed_db) \<and>
   ObjectObservationsResource_get sample_lib seed_db 99 = Respond 404 (message ''Object not found'') \<and>
   PlaceObservationsResource_get sample_lib seed_db 99 = Respond 404 (message ''Place not found'') \<and>
   InstrumentObservationsResource_get sample_lib seed_db 99 =
     Respond 404 (message ''Instrument not found'') \<and>
   (1::int) \<in> Object_id ` set (objects seed_db) \<and>
   (1::int) \<in> Place_id ` set (places seed_db) \<and>
   (2::int) \<in> Instrument_id ` set (instruments seed_db) \<and>
   ObjectObservationsResource_get sample_lib seed_db 1 =
     Respond 200 (Arr (map (Observation_repr sample_lib)
       [observations seed_db ! 0, observations seed_db ! 2])) \<and>
   PlaceObservationsResource_get sample_lib seed_db 1 =
     Respond 200 (Arr (map (Observation_repr sample_lib) [observations seed_db ! 0])) \<and>
   InstrumentObservationsResource_get sample_lib seed_db 2 =
     Respond 200 (Arr (map (Observation_repr sample_lib)
       [observations seed_db ! 1, observations seed_db ! 2]))"
proof -
  have h: "(99::int) \<notin> Object_id ` set (objects seed_db)"
    "(99::int) \<notin> Place_id ` set (places seed_db)"
    "(99::int) \<notin> Instrument_id ` set (instruments seed_db)"
    "(1::int) \<in> Object_id ` set (objects seed_db)"
    "(1::int) \<in> Place_id ` set (places seed_db)"
    "(2::int) \<in> Instrument_id ` set (instruments seed_db)"
    by (simp_all add: seed_db_def)
  have f: "filter (\<lambda>obs. Observation_object obs = JInt 1) (observations seed_db) =
             [observations seed_db ! 0, observations seed_db ! 2]"
    "filter (\<lambda>obs. Observation_place obs = JInt 1) (observations seed_db) =
             [observations seed_db ! 0]"
    "filter (\<lambda>obs. Observation_instrument obs = JInt 2) (observations seed_db) =
             [observations seed_db ! 1, observations seed_db ! 2]"
    by (simp_all add: seed_db_def)
  show ?thesis
    using parent_observations [of 99 seed_db sample_lib] parent_observations [of 1 seed_db sample_lib]
      parent_observations [of 2 seed_db sample_lib]
    by (simp add: h f)
qed

section \<open>Statements that can return early\<close>

lemma and_then_Inr_iff: "and_then m f = Inr y \<longleftrightarrow> (\<exists>x. m = Inr x \<and> f x = Inr y)"
  by (cases m) auto


section \<open>The search\<close>

lemma filter_block_supplied:
  "filter_value parse param = Some v \<Longrightarrow>
   filter_block param parse cond msg query =
     Inr (filter (\<lambda>r. case v of None \<Rightarrow> True | Some x \<Rightarrow> cond x r) query)"
  by (auto simp: filter_value_def filter_block_def split: option.splits if_splits)

lemma satisfies_filters_blocks:
  "satisfies_filters sd ed oid pid iid obs \<longleftrightarrow>
     (case sd of None \<Rightarrow> True | Some x \<Rightarrow> datetime_ge x obs) \<and>
     (case ed of None \<Rightarrow> True | Some x \<Rightarrow> datetime_le x obs) \<and>
     (case oid of None \<Rightarrow> True | Some x \<Rightarrow> Observation_object obs = JInt x) \<and>
     (case pid of None \<Rightarrow> True | Some x \<Rightarrow> Observation_place obs = JInt x) \<and>
     (case iid of None \<Rightarrow> True | Some x \<Rightarrow> Observation_instrument obs = JInt x)"
  by (cases sd; cases ed) (simp_all add: satisfies_filters_def datetime_ge_def datetime_le_def)

lemma search_supplied:
  assumes "filter_value (\<lambda>s. fromisoformat L (replace_Z s)) start_date = Some sd"
    and "filter_value (\<lambda>s. fromisoformat L (replace_Z s)) end_date = Some ed"
    and "filter_value (int_of_str L) object_id = Some oid"
    and "filter_value (int_of_str L) place_id = Some pid"
    and "filter_value (int_of_str L) instrument_id = Some iid"
  shows "ObservationSearchResource_get L db start_date end_date object_id place_id instrument_id =
      Respond 200 (Arr (map (Observation_repr L)
        (filter (satisfies_filters sd ed oid pid iid) (observations db))))"
proof -
  have "filter (satisfies_filters sd ed oid pid iid) (observations db) =
        filter (\<lambda>r. case iid of None \<Rightarrow> True | Some x \<Rightarrow> Observation_instrument r = JInt x)
         (filter (\<lambda>r. case pid of None \<Rightarrow> True | Some x \<Rightarrow> Observation_place r = JInt x)
          (filter (\<lambda>r. case oid of None \<Rightarrow> True | Some x \<Rightarrow> Observation_object r = JInt x)
           (filter (\<lambda>r. case ed of None \<Rightarrow> True | Some x \<Rightarrow> datetime_le x r)
            (filter (\<lambda>r. case sd of None \<Rightarrow> True | Some x \<Rightarrow> datetime_ge x r)
              (observations db)))))"
    unfolding filter_filter satisfies_filters_blocks by (rule filter_cong) auto
  then show ?thesis
    by (simp add: ObservationSearchResource_get_def filter_block_supplied [OF assms(1)]
        filter_block_supplied [OF assms(2)] filter_block_supplied [OF assms(3)]
        filter_block_supplied [OF assms(4)] filter_block_supplied [OF assms(5)])
qed

lemma filter_value_None: "filter_value parse None = Some None"
  by (simp add: filter_value_def)

lemma satisfies_no_filters: "satisfies_filters None None None None None = (\<lambda>obs. True)"
  by (simp add: satisfies_filters_def fun_eq_iff)

text \<open>
  C4. For every stored set of Observations and every combination of the five filters
  whose supplied texts parse, the search answers 200 with exactly the Observations that
  satisfy the conjunction of the supplied filters (timestamp not before \<open>start_date\<close>,
  not after \<open>end_date\<close>, each supplied id equal to the Observation's field); with no
  filter supplied it answers what the listing of all Observations answers.
\<close>

theorem search_conjunction:
  "(filter_value (\<lambda>s. fromisoformat L (replace_Z s)) start_date = Some sd \<and>
    filter_value (\<lambda>s. fromisoformat L (replace_Z s)) end_date = Some ed \<and>
    filter_value (int_of_str L) object_id = Some oid \<and>
    filter_value (int_of_str L) place_id = Some pid \<and>
    filter_value (int_of_str L) instrument_id = Some iid \<longrightarrow>
    ObservationSearchResource_get L db start_date end_date object_id place_id instrument_id =
      Respond 200 (Arr (map (Observation_repr L)
        (filter (satisfies_filters sd ed oid pid iid) (observations db))))) \<and>
   ObservationSearchResource_get L db None None None None None = ObservationListResource_get L db"
proof (intro conjI impI)
  assume "filter_value (\<lambda>s. fromisoformat L (replace_Z s)) start_date = Some sd \<and>
    filter_value (\<lambda>s. fromisoformat L (replace_Z s)) end_date = Some ed \<and>
    filter_value (int_of_str L) object_id = Some oid \<and>
    filter_value (int_of_str L) place_id = Some pid \<and>
    filter_value (int_of_str L) instrument_id = Some iid"
  then show "ObservationSearchResource_get L db start_date end_date object_id place_id instrument_id =
      Respond 200 (Arr (map (Observation_repr L)
        (filter (satisfies_filters sd ed oid pid iid) (observations db))))"
    by (intro search_supplied) simp_all
next
  show "ObservationSearchResource_get L db None None None None None = ObservationListResource_get L db"
    using search_supplied [of L None None None None None None None None None None db]
    by (simp add: filter_value_None satisfies_no_filters ObservationListResource_get_def)
qed

text \<open>
  The scenario of the specification: a start date and an object id, over three
  Observations of which two are of object 1 and one of these is before the start date.
\<close>

lemma sample_values:
  "filter_value (\<lambda>s. fromisoformat sample_lib (replace_Z s)) (Some ''2025-01-02T00:00:00'') =
     Some (Some (Stamp 2025 1 2 0 0 0))"
  "filter_value (int_of_str sample_lib) (Some ''1'') = Some (Some 1)"
  by (simp_all add: filter_value_def sample_lib_def sample_fromisoformat_def replace_Z_def
        offset_ok_def read_nat_def digit_of_def)

theorem search_conjunction_witness:
  "filter_value (\<lambda>s. fromisoformat sample_lib (replace_Z s)) (Some ''2025-01-02T00:00:00'') =
     Some (Some (Stamp 2025 1 2 0 0 0)) \<and>
   filter_value (\<lambda>s. fromisoformat sample_lib (replace_Z s)) None = Some None \<and>
   filter_value (int_of_str sample_lib) (Some ''1'') = Some (Some 1) \<and>
   filter_value (int_of_str sample_lib) None = Some None \<and>
   ObservationSearchResource_get sample_lib seed_db (Some ''2025-01-02T00:00:00'') None (Some ''1'')
       None None =
     Respond 200 (Arr [Observation_repr sample_lib (observations seed_db ! 0)])"
proof -
  have f: "filter (satisfies_filters (Some (Stamp 2025 1 2 0 0 0)) None (Some 1) None None)
             (observations seed_db) = [observations seed_db ! 0]"
    by (simp add: seed_db_def satisfies_filters_def less_eq_stamp_def)
  show ?thesis
    using search_conjunction [of sample_lib "Some ''2025-01-02T00:00:00''"
        "Some (Stamp 2025 1 2 0 0 0)" None None "Some ''1''" "Some 1" None None None None seed_db]
    by (simp add: sample_values filter_value_None f)
qed

section \<open>Partial updates\<close>




text \<open>When the statements return a message, and when they cannot.\<close>

lemma put_statements_unresolved:
  assumes "(\<exists>v. map_of d ''object'' = Some v \<and> query_get_j Object_id (objects db) v = None) \<or>
           (\<exists>v. map_of d ''place'' = Some v \<and> query_get_j Place_id (places db) v = None) \<or>
           (\<exists>v. map_of d ''instrument'' = Some v \<and>
                query_get_j Instrument_id (instruments db) v = None) \<or>
           (\<exists>v. map_of d ''prop1'' = Some v \<and> truthy v \<and>
                query_get_j Property_id (properities db) v = None) \<or>
           (\<exists>v. map_of d ''datetime'' = Some v \<and> parse_datetime L v = None)"
  shows "isl (put_statements L db d r)"
proof (rule ccontr)
  assume "\<not> isl (put_statements L db d r)"
  then obtain r' where ok: "put_statements L db d r = Inr r'"
    by (cases "put_statements L db d r") auto
  then obtain r1 r2 r3 r4 r5 where
    s1: "if_in_checked d ''object''
           (\<lambda>v r. case query_get_j Object_id (objects db) v of
                     None \<Rightarrow> Inl ''Object not found''
                   | Some obj \<Rightarrow> Inr (r\<lparr>Observation_object := v\<rparr>)) r = Inr r1" and
    s2: "if_in_checked d ''place''
           (\<lambda>v r. case query_get_j Place_id (places db) v of
                     None \<Rightarrow> Inl ''Place not found''
                   | Some place \<Rightarrow> Inr (r\<lparr>Observation_place := v\<rparr>)) r1 = Inr r2" and
    s3: "if_in_checked d ''instrument''
           (\<lambda>v r. case query_get_j Instrument_id (instruments db) v of
                     None \<Rightarrow> Inl ''Instrument not found''
                   | Some instrument \<Rightarrow> Inr (r\<lparr>Observation_instrument := v\<rparr>)) r2 = Inr r3" and
    s4: "if_in_checked d ''prop1''
           (\<lambda>v r. if truthy v
                   then (case query_get_j Property_id (properities db) v of
                           None \<Rightarrow> Inl ''Property not found''
                         | Some p \<Rightarrow> Inr (r\<lparr>Observation_prop1 := v\<rparr>))
                   else Inr r) r3 = Inr r4" and
    s5: "if_in_checked d ''datetime''
           (\<lambda>v r. case parse_datetime L v of
                     None \<Rightarrow> Inl datetime_format_message
                   | Some observation_datetime \<Rightarrow>
                       Inr (r\<lparr>Observation_datetime := Some observation_datetime\<rparr>)) r4 = Inr r5"
    unfolding put_statements_def and_then_Inr_iff Let_def by auto
  from assms show False
  proof (elim disjE exE conjE)
    fix v assume "map_of d ''object'' = Some v" "query_get_j Object_id (objects db) v = None"
    with s1 show False by (simp add: if_in_checked_def)
  next
    fix v assume "map_of d ''place'' = Some v" "query_get_j Place_id (places db) v = None"
    with s2 show False by (simp add: if_in_checked_def)
  next
    fix v assume "map_of d ''instrument'' = Some v"
      "query_get_j Instrument_id (instruments db) v = None"
    with s3 show False by (simp add: if_in_checked_def)
  next
    fix v assume "map_of d ''prop1'' = Some v" "truthy v"
      "query_get_j Property_id (properities db) v = None"
    with s4 show False by (simp add: if_in_checked_def)
  next
    fix v assume "map_of d ''datetime'' = Some v" "parse_datetime L v = None"
    with s5 show False by (simp add: if_in_checked_def)
  qed
qed













subsection \<open>What a \<open>put\<close> stores\<close>

















section \<open>Creating rows\<close>

lemma fold_max_ge: "a \<le> fold max ids (a::int)"
  by (induction ids arbitrary: a) (auto intro: order_trans [OF max.cobounded2])

lemma fold_max_ge_elem: "x \<in> set ids \<Longrightarrow> x \<le> fold max ids (a::int)"
proof (induction ids arbitrary: a)
  case Nil
  then show ?case by simp
next
  case (Cons y ys)
  show ?case
  proof (cases "x = y")
    case True
    have "y \<le> max y a" by simp
    also have "\<dots> \<le> fold max ys (max y a)" by (rule fold_max_ge)
    finally show ?thesis using True by simp
  next
    case False
    with Cons show ?thesis by simp
  qed
qed

lemma next_id_fresh: "next_id ids \<notin> set ids"
proof
  assume "next_id ids \<in> set ids"
  from fold_max_ge_elem [OF this, of 0] show False by (simp add: next_id_def)
qed


lemma query_get_append_fresh:
  "pk r = k \<Longrightarrow> k \<notin> pk ` set rows \<Longrightarrow> query_get pk (rows @ [r]) k = Some r"
  unfolding query_get_def by (induction rows) auto











lemma ObservationListResource_post_201_form:
  assumes "status_of (fst (ObservationListResource_post L db P)) = Some 201"
  shows "\<exists>t. map_of P ''object'' \<noteq> None \<and> map_of P ''place'' \<noteq> None \<and> map_of P ''instrument'' \<noteq> None \<and> map_of P ''datetime'' \<noteq> None \<and> map_of P ''observation'' \<noteq> None \<and>
           parse_datetime L (dict_get P ''datetime'') = Some t \<and>
           ObservationListResource_post L db P =
             (Respond 201 (Obj (Observation_repr L
               \<lparr>Observation_id = (next_id (map Observation_id (observations db))), Observation_object = dict_get P ''object'',
                Observation_place = dict_get P ''place'',
                Observation_instrument = dict_get P ''instrument'',
                Observation_datetime = Some t,
                Observation_observation = dict_get P ''observation'',
                Observation_prop1 = dict_get P ''prop1'',
                Observation_prop1value = dict_get P ''prop1value''\<rparr>)),
              db\<lparr>observations := observations db @
               [\<lparr>Observation_id = (next_id (map Observation_id (observations db))), Observation_object = dict_get P ''object'',
                Observation_place = dict_get P ''place'',
                Observation_instrument = dict_get P ''instrument'',
                Observation_datetime = Some t,
                Observation_observation = dict_get P ''observation'',
                Observation_prop1 = dict_get P ''prop1'',
                Observation_prop1value = dict_get P ''prop1value''\<rparr>]\<rparr>)"
proof -
  have ne: "P \<noteq> []"
    using assms by (auto simp: ObservationListResource_post_def)
  obtain ob pl ins dt tx where k:
    "map_of P ''object'' = Some ob" "map_of P ''place'' = Some pl"
    "map_of P ''instrument'' = Some ins" "map_of P ''datetime'' = Some dt"
    "map_of P ''observation'' = Some tx"
    using assms ne
    by (cases "map_of P ''object''"; cases "map_of P ''place''"; cases "map_of P ''instrument''";
        cases "map_of P ''datetime''"; cases "map_of P ''observation''")
       (simp_all add: ObservationListResource_post_def)
  show ?thesis
    using assms k ne
    by (auto simp: ObservationListResource_post_def dict_get_def Let_def
          split: option.splits if_splits)
qed





section \<open>Writes that fail\<close>

lemma TypeListResource_post_atomic_cases:
  "snd (TypeListResource_post db P) = db \<or> status_of (fst (TypeListResource_post db P)) = Some 201"
  by (simp add: TypeListResource_post_def Let_def split: option.split if_split sum.split)

lemma TypeListResource_post_atomic:
  "(status_of (fst (TypeListResource_post db P)) \<notin> {Some 200, Some 201, Some 204} \<longrightarrow>
      snd (TypeListResource_post db P) = db)"
  using TypeListResource_post_atomic_cases [of db P] by auto

lemma TypeResource_put_atomic_cases:
  "snd (TypeResource_put db k d) = db \<or> status_of (fst (TypeResource_put db k d)) = Some 200"
  by (simp add: TypeResource_put_def Let_def split: option.split if_split sum.split)

lemma TypeResource_put_atomic:
  "(status_of (fst (TypeResource_put db k d)) \<notin> {Some 200, Some 201, Some 204} \<longrightarrow>
      snd (TypeResource_put db k d) = db)"
  using TypeResource_put_atomic_cases [of db k d] by auto

lemma TypeResource_delete_atomic_cases:
  "snd (TypeResource_delete db k) = db \<or> status_of (fst (TypeResource_delete db k)) = Some 204"
  by (simp add: TypeResource_delete_def Let_def split: option.split if_split sum.split)

lemma TypeResource_delete_atomic:
  "(status_of (fst (TypeResource_delete db k)) \<notin> {Some 200, Some 201, Some 204} \<longrightarrow>
      snd (TypeResource_delete db k) = db)"
  using TypeResource_delete_atomic_cases [of db k] by auto

lemma PropertyListResource_post_atomic_cases:
  "snd (PropertyListResource_post db P) = db \<or> status_of (fst (PropertyListResource_post db P)) = Some 201"
  by (simp add: PropertyListResource_post_def Let_def split: option.split if_split sum.split)

lemma PropertyListResource_post_atomic:
  "(status_of (fst (PropertyListResource_post db P)) \<notin> {Some 200, Some 201, Some 204} \<longrightarrow>
      snd (PropertyListResource_post db P) = db)"
  using PropertyListResource_post_atomic_cases [of db P] by auto

lemma PropertyResource_put_atomic_cases:
  "snd (PropertyResource_put db k d) = db \<or> status_of (fst (PropertyResource_put db k d)) = Some 200"
  by (simp add: PropertyResource_put_def Let_def split: option.split if_split sum.split)

lemma PropertyResource_put_atomic:
  "(status_of (fst (PropertyResource_put db k d)) \<notin> {Some 200, Some 201, Some 204} \<longrightarrow>
      snd (PropertyResource_put db k d) = db)"
  using PropertyResource_put_atomic_cases [of db k d] by auto

lemma PropertyResource_delete_atomic_cases:
  "snd (PropertyResource_delete db k) = db \<or> status_of (fst (PropertyResource_delete db k)) = Some 204"
  by (simp add: PropertyResource_delete_def Let_def split: option.split if_split sum.split)

lemma PropertyResource_delete_atomic:
  "(status_of (fst (PropertyResource_delete db k)) \<notin> {Some 200, Some 201, Some 204} \<longrightarrow>
      snd (PropertyResource_delete db k) = db)"
  using PropertyResource_delete_atomic_cases [of db k] by auto

lemma PlaceListResource_post_atomic_cases:
  "snd (PlaceListResource_post db P) = db \<or> status_of (fst (PlaceListResource_post db P)) = Some 201"
  by (simp add: PlaceListResource_post_def Let_def split: option.split if_split sum.split)

lemma PlaceListResource_post_atomic:
  "(status_of (fst (PlaceListResource_post db P)) \<notin> {Some 200, Some 201, Some 204} \<longrightarrow>
      snd (PlaceListResource_post db P) = db)"
  using PlaceListResource_post_atomic_cases [of db P] by auto

lemma PlaceResource_put_atomic_cases:
  "snd (PlaceResource_put db k d) = db \<or> status_of (fst (PlaceResource_put db k d)) = Some 200"
  by (simp add: PlaceResource_put_def Let_def split: option.split if_split sum.split)

lemma PlaceResource_put_atomic:
  "(status_of (fst (PlaceResource_put db k d)) \<notin> {Some 200, Some 201, Some 204} \<longrightarrow>
      snd (PlaceResource_put db k d) = db)"
  using PlaceResource_put_atomic_cases [of db k d] by auto

lemma PlaceResource_delete_atomic_cases:
  "snd (PlaceResource_delete db k) = db \<or> status_of (fst (PlaceResource_delete db k)) = Some 204"
  by (simp add: PlaceResource_delete_def Let_def split: option.split if_split sum.split)

lemma PlaceResource_delete_atomic:
  "(status_of (fst (PlaceResource_delete db k)) \<notin> {Some 200, Some 201, Some 204} \<longrightarrow>
      snd (PlaceResource_delete db k) = db)"
  using PlaceResource_delete_atomic_cases [of db k] by auto

lemma InstrumentListResource_post_atomic_cases:
  "snd (InstrumentListResource_post db P) = db \<or> status_of (fst (InstrumentListResource_post db P)) = Some 201"
  by (simp add: InstrumentListResource_post_def Let_def split: option.split if_split sum.split)

lemma InstrumentListResource_post_atomic:
  "(status_of (fst (InstrumentListResource_post db P)) \<notin> {Some 200, Some 201, Some 204} \<longrightarrow>
      snd (InstrumentListResource_post db P) = db)"
  using InstrumentListResource_post_atomic_cases [of db P] by auto

lemma InstrumentResource_put_atomic_cases:
  "snd (InstrumentResource_put db k d) = db \<or> status_of (fst (InstrumentResource_put db k d)) = Some 200"
  by (simp add: InstrumentResource_put_def Let_def split: option.split if_split sum.split)

lemma InstrumentResource_put_atomic:
  "(status_of (fst (InstrumentResource_put db k d)) \<notin> {Some 200, Some 201, Some 204} \<longrightarrow>
      snd (InstrumentResource_put db k d) = db)"
  using InstrumentResource_put_atomic_cases [of db k d] by auto

lemma InstrumentResource_delete_atomic_cases:
  "snd (InstrumentResource_delete db k) = db \<or> status_of (fst (InstrumentResource_delete db k)) = Some 204"
  by (simp add: InstrumentResource_delete_def Let_def split: option.split if_split sum.split)

lemma InstrumentResource_delete_atomic:
  "(status_of (fst (InstrumentResource_delete db k)) \<notin> {Some 200, Some 201, Some 204} \<longrightarrow>
      snd (InstrumentResource_delete db k) = db)"
  using InstrumentResource_delete_atomic_cases [of db k] by auto

lemma ObjectListResource_post_atomic_cases:
  "snd (ObjectListResource_post db P) = db \<or> status_of (fst (ObjectListResource_post db P)) = Some 201"
  by (simp add: ObjectListResource_post_def Let_def split: option.split if_split sum.split)

lemma ObjectListResource_post_atomic:
  "(status_of (fst (ObjectListResource_post db P)) \<notin> {Some 200, Some 201, Some 204} \<longrightarrow>
      snd (ObjectListResource_post db P) = db)"
  using ObjectListResource_post_atomic_cases [of db P] by auto

lemma ObjectResource_put_atomic_cases:
  "snd (ObjectResource_put db k d) = db \<or> status_of (fst (ObjectResource_put db k d)) = Some 200"
  by (simp add: ObjectResource_put_def Let_def split: option.split if_split sum.split)

lemma ObjectResource_put_atomic:
  "(status_of (fst (ObjectResource_put db k d)) \<notin> {Some 200, Some 201, Some 204} \<longrightarrow>
      snd (ObjectResource_put db k d) = db)"
  using ObjectResource_put_atomic_cases [of db k d] by auto

lemma ObjectResource_delete_atomic_cases:
  "snd (ObjectResource_delete db k) = db \<or> status_of (fst (ObjectResource_delete db k)) = Some 204"
  by (simp add: ObjectResource_delete_def Let_def split: option.split if_split sum.split)

lemma ObjectResource_delete_atomic:
  "(status_of (fst (ObjectResource_delete db k)) \<notin> {Some 200, Some 201, Some 204} \<longrightarrow>
      snd (ObjectResource_delete db k) = db)"
  using ObjectResource_delete_atomic_cases [of db k] by auto

lemma ObservationListResource_post_missing:
  assumes "P = [] \<or> map_of P ''object'' = None \<or> map_of P ''place'' = None \<or>
           map_of P ''instrument'' = None \<or> map_of P ''datetime'' = None \<or>
           map_of P ''observation'' = None"
  shows "\<exists>m. ObservationListResource_post L db P = (Respond 400 (message m), db)"
  using assms
  by (cases "map_of P ''object''"; cases "map_of P ''place''"; cases "map_of P ''instrument''";
      cases "map_of P ''datetime''"; cases "map_of P ''observation''")
     (auto simp: ObservationListResource_post_def)

lemma ObservationListResource_post_present:
  assumes "P \<noteq> []" "map_of P ''object'' = Some ob" "map_of P ''place'' = Some pl"
    "map_of P ''instrument'' = Some ins" "map_of P ''datetime'' = Some dt"
    "map_of P ''observation'' = Some tx"
  shows "(\<exists>m. ObservationListResource_post L db P = (Respond 400 (message m), db)) \<or>
         ObservationListResource_post L db P = (Unhandled, db) \<or>
         (\<exists>b. fst (ObservationListResource_post L db P) = Respond 201 b)"
proof -
  let ?bad_prop1 = "case map_of P ''prop1'' of
                      None \<Rightarrow> False
                    | Some p \<Rightarrow> truthy p \<and> query_get_j Property_id (properities db) p = None"
  consider (object) "query_get_j Object_id (objects db) ob = None"
    | (place) "query_get_j Object_id (objects db) ob \<noteq> None"
        "query_get_j Place_id (places db) pl = None"
    | (instrument) "query_get_j Object_id (objects db) ob \<noteq> None"
        "query_get_j Place_id (places db) pl \<noteq> None"
        "query_get_j Instrument_id (instruments db) ins = None"
    | (prop1) "query_get_j Object_id (objects db) ob \<noteq> None"
        "query_get_j Place_id (places db) pl \<noteq> None"
        "query_get_j Instrument_id (instruments db) ins \<noteq> None" "?bad_prop1"
    | (datetime) "query_get_j Object_id (objects db) ob \<noteq> None"
        "query_get_j Place_id (places db) pl \<noteq> None"
        "query_get_j Instrument_id (instruments db) ins \<noteq> None" "\<not> ?bad_prop1"
        "parse_datetime L dt = None"
    | (parsed) t where "query_get_j Object_id (objects db) ob \<noteq> None"
        "query_get_j Place_id (places db) pl \<noteq> None"
        "query_get_j Instrument_id (instruments db) ins \<noteq> None" "\<not> ?bad_prop1"
        "parse_datetime L dt = Some t"
    by (cases "parse_datetime L dt") blast+
  then show ?thesis
  proof cases
    case object
    with assms show ?thesis by (auto simp: ObservationListResource_post_def)
  next
    case place
    with assms show ?thesis by (auto simp: ObservationListResource_post_def)
  next
    case instrument
    with assms show ?thesis by (auto simp: ObservationListResource_post_def)
  next
    case prop1
    with assms show ?thesis by (auto simp: ObservationListResource_post_def)
  next
    case datetime
    with assms show ?thesis by (auto simp: ObservationListResource_post_def)
  next
    case parsed
    with assms show ?thesis by (auto simp: ObservationListResource_post_def Let_def)
  qed
qed

lemma ObservationListResource_post_atomic_cases:
  "snd (ObservationListResource_post L db P) = db \<or>
   status_of (fst (ObservationListResource_post L db P)) = Some 201"
proof (cases "P = [] \<or> map_of P ''object'' = None \<or> map_of P ''place'' = None \<or>
           map_of P ''instrument'' = None \<or> map_of P ''datetime'' = None \<or>
           map_of P ''observation'' = None")
  case True
  from ObservationListResource_post_missing [OF this, of L db] show ?thesis by auto
next
  case False
  then obtain ob pl ins dt tx where "P \<noteq> []" "map_of P ''object'' = Some ob"
    "map_of P ''place'' = Some pl" "map_of P ''instrument'' = Some ins"
    "map_of P ''datetime'' = Some dt" "map_of P ''observation'' = Some tx"
    by auto
  from ObservationListResource_post_present [OF this, of L db] show ?thesis by auto
qed

lemma ObservationListResource_post_atomic:
  "(status_of (fst (ObservationListResource_post L db P)) \<notin> {Some 200, Some 201, Some 204} \<longrightarrow>
      snd (ObservationListResource_post L db P) = db)"
  using ObservationListResource_post_atomic_cases [of L db P] by auto

lemma ObservationResource_put_atomic_cases:
  "snd (ObservationResource_put L db k d) = db \<or> status_of (fst (ObservationResource_put L db k d)) = Some 200"
  by (simp add: ObservationResource_put_def Let_def split: option.split if_split sum.split)

lemma ObservationResource_put_atomic:
  "(status_of (fst (ObservationResource_put L db k d)) \<notin> {Some 200, Some 201, Some 204} \<longrightarrow>
      snd (ObservationResource_put L db k d) = db)"
  using ObservationResource_put_atomic_cases [of L db k d] by auto

lemma ObservationResource_delete_atomic_cases:
  "snd (ObservationResource_delete db k) = db \<or> status_of (fst (ObservationResource_delete db k)) = Some 204"
  by (simp add: ObservationResource_delete_def Let_def split: option.split if_split sum.split)

lemma ObservationResource_delete_atomic:
  "(status_of (fst (ObservationResource_delete db k)) \<notin> {Some 200, Some 201, Some 204} \<longrightarrow>
      snd (ObservationResource_delete db k) = db)"
  using ObservationResource_delete_atomic_cases [of db k] by auto

text \<open>
  C5. Every create, update and delete that does not answer 200, 201 or 204 (an error
  status, or an exception the handler does not catch) leaves the stored rows as they
  were: nothing is written before the commit, and every \<open>return\<close> with an error
  comes before it.
\<close>

theorem failed_write_changes_nothing:
  "(status_of (fst (TypeListResource_post db P)) \<notin> {Some 200, Some 201, Some 204} \<longrightarrow>
      snd (TypeListResource_post db P) = db) \<and>
   (status_of (fst (TypeResource_put db k d)) \<notin> {Some 200, Some 201, Some 204} \<longrightarrow>
      snd (TypeResource_put db k d) = db) \<and>
   (status_of (fst (TypeResource_delete db k)) \<notin> {Some 200, Some 201, Some 204} \<longrightarrow>
      snd (TypeResource_delete db k) = db) \<and>
   (status_of (fst (PropertyListResource_post db P)) \<notin> {Some 200, Some 201, Some 204} \<longrightarrow>
      snd (PropertyListResource_post db P) = db) \<and>
   (status_of (fst (PropertyResource_put db k d)) \<notin> {Some 200, Some 201, Some 204} \<longrightarrow>
      snd (PropertyResource_put db k d) = db) \<and>
   (status_of (fst (PropertyResource_delete db k)) \<notin> {Some 200, Some 201, Some 204} \<longrightarrow>
      snd (PropertyResource_delete db k) = db) \<and>
   (status_of (fst (PlaceListResource_post db P)) \<notin> {Some 200, Some 201, Some 204} \<longrightarrow>
      snd (PlaceListResource_post db P) = db) \<and>
   (status_of (fst (PlaceResource_put db k d)) \<notin> {Some 200, Some 201, Some 204} \<longrightarrow>
      snd (PlaceResource_put db k d) = db) \<and>
   (status_of (fst (PlaceResource_delete db k)) \<notin> {Some 200, Some 201, Some 204} \<longrightarrow>
      snd (PlaceResource_delete db k) = db) \<and>
   (status_of (fst (InstrumentListResource_post db P)) \<notin> {Some 200, Some 201, Some 204} \<longrightarrow>
      snd (InstrumentListResource_post db P) = db) \<and>
   (status_of (fst (InstrumentResource_put db k d)) \<notin> {Some 200, Some 201, Some 204} \<longrightarrow>
      snd (InstrumentResource_put db k d) = db) \<and>
   (status_of (fst (InstrumentResource_delete db k)) \<notin> {Some 200, Some 201, Some 204} \<longrightarrow>
      snd (InstrumentResource_delete db k) = db) \<and>
   (status_of (fst (ObjectListResource_post db P)) \<notin> {Some 200, Some 201, Some 204} \<longrightarrow>
      snd (ObjectListResource_post db P) = db) \<and>
   (status_of (fst (ObjectResource_put db k d)) \<notin> {Some 200, Some 201, Some 204} \<longrightarrow>
      snd (ObjectResource_put db k d) = db) \<and>
   (status_of (fst (ObjectResource_delete db k)) \<notin> {Some 200, Some 201, Some 204} \<longrightarrow>
      snd (ObjectResource_delete db k) = db) \<and>
   (status_of (fst (ObservationListResource_post L db P)) \<notin> {Some 200, Some 201, Some 204} \<longrightarrow>
      snd (ObservationListResource_post L db P) = db) \<and>
   (status_of (fst (ObservationResource_put L db k d)) \<notin> {Some 200, Some 201, Some 204} \<longrightarrow>
      snd (ObservationResource_put L db k d) = db) \<and>
   (status_of (fst (ObservationResource_delete db k)) \<notin> {Some 200, Some 201, Some 204} \<longrightarrow>
      snd (ObservationResource_delete db k) = db)"
  by (intro conjI TypeListResource_post_atomic TypeResource_put_atomic TypeResource_delete_atomic PropertyListResource_post_atomic PropertyResource_put_atomic PropertyResource_delete_atomic PlaceListResource_post_atomic PlaceResource_put_atomic PlaceResource_delete_atomic InstrumentListResource_post_atomic InstrumentResource_put_atomic InstrumentResource_delete_atomic ObjectListResource_post_atomic ObjectResource_put_atomic ObjectResource_delete_atomic ObservationListResource_post_atomic ObservationResource_put_atomic ObservationResource_delete_atomic)

text \<open>
  The two scenarios, on the sample database: an Object of the type 999, which no row
  has, and an update of Observation 1 whose place is valid and whose timestamp is not.
\<close>

theorem failed_write_changes_nothing_witness:
  "status_of (fst (ObjectListResource_post seed_db
       [(''name'', JStr ''Vega''), (''type'', JInt 999)])) = Some 400 \<and>
   Some 400 \<notin> {Some 200, Some 201, Some (204::nat)} \<and>
   snd (ObjectListResource_post seed_db [(''name'', JStr ''Vega''), (''type'', JInt 999)]) = seed_db \<and>
   ObjectListResource_get (snd (ObjectListResource_post seed_db
       [(''name'', JStr ''Vega''), (''type'', JInt 999)])) = ObjectListResource_get seed_db \<and>
   status_of (fst (ObservationResource_put sample_lib seed_db 1
       [(''place'', JInt 2), (''datetime'', JStr ''yesterday'')])) = Some 400 \<and>
   snd (ObservationResource_put sample_lib seed_db 1
       [(''place'', JInt 2), (''datetime'', JStr ''yesterday'')]) = seed_db \<and>
   ObservationResource_get sample_lib (snd (ObservationResource_put sample_lib seed_db 1
       [(''place'', JInt 2), (''datetime'', JStr ''yesterday'')])) 1 =
     ObservationResource_get sample_lib seed_db 1"
proof -
  have s: "status_of (fst (ObjectListResource_post seed_db
       [(''name'', JStr ''Vega''), (''type'', JInt 999)])) = Some 400"
    "status_of (fst (ObservationResource_put sample_lib seed_db 1
       [(''place'', JInt 2), (''datetime'', JStr ''yesterday'')])) = Some 400"
    by (simp_all add: ObjectListResource_post_def ObservationResource_put_def put_statements_def
          if_in_checked_def seed_db_def query_get_def sample_lib_def sample_fromisoformat_def
          replace_Z_def)
  show ?thesis
    using failed_write_changes_nothing [where db = seed_db and L = sample_lib and k = 1 and
        P = "[(''name'', JStr ''Vega''), (''type'', JInt 999)]" and
        d = "[(''place'', JInt 2), (''datetime'', JStr ''yesterday'')]"]
    by (simp add: s)
qed

section \<open>Timestamps\<close>

lemma replace_Z_append: "replace_Z (a @ b) = replace_Z a @ replace_Z b"
  by (simp add: replace_Z_def)

lemma replace_Z_none: "CHR ''Z'' \<notin> set s \<Longrightarrow> replace_Z s = s"
  unfolding replace_Z_def by (induction s) auto

lemma replace_Z_trailing: "CHR ''Z'' \<notin> set s \<Longrightarrow> replace_Z (s @ ''Z'') = s @ ''+00:00''"
  by (simp add: replace_Z_append replace_Z_none) (simp add: replace_Z_def)

lemma ObservationListResource_post_bad_datetime:
  assumes "map_of P ''datetime'' = Some v" "parse_datetime L v = None"
  shows "\<exists>m. ObservationListResource_post L db P = (Respond 400 (message m), db)"
proof (cases "P = [] \<or> map_of P ''object'' = None \<or> map_of P ''place'' = None \<or>
           map_of P ''instrument'' = None \<or> map_of P ''datetime'' = None \<or>
           map_of P ''observation'' = None")
  case True
  from ObservationListResource_post_missing [OF this] show ?thesis .
next
  case False
  then obtain ob pl ins tx where k: "P \<noteq> []" "map_of P ''object'' = Some ob"
    "map_of P ''place'' = Some pl" "map_of P ''instrument'' = Some ins"
    "map_of P ''observation'' = Some tx"
    by auto
  from ObservationListResource_post_present [OF k(1-4) assms(1) k(5), of L db]
  consider (m) "\<exists>m. ObservationListResource_post L db P = (Respond 400 (message m), db)"
    | (u) "ObservationListResource_post L db P = (Unhandled, db)"
    | (c) "status_of (fst (ObservationListResource_post L db P)) = Some 201"
    by auto
  then show ?thesis
  proof cases
    case m
    then show ?thesis .
  next
    case u
    with k assms show ?thesis
      by (auto simp: ObservationListResource_post_def split: if_splits)
  next
    case c
    from ObservationListResource_post_201_form [OF c] assms show ?thesis
      by (auto simp: dict_get_def)
  qed
qed

lemma ObservationListResource_post_format_message:
  assumes "map_of P ''object'' = Some ob" "map_of P ''place'' = Some pl"
    "map_of P ''instrument'' = Some ins" "map_of P ''datetime'' = Some dt"
    "map_of P ''observation'' = Some tx"
    "query_get_j Object_id (objects db) ob \<noteq> None"
    "query_get_j Place_id (places db) pl \<noteq> None"
    "query_get_j Instrument_id (instruments db) ins \<noteq> None"
    "\<forall>p. map_of P ''prop1'' = Some p \<longrightarrow> truthy p \<longrightarrow>
         query_get_j Property_id (properities db) p \<noteq> None"
    "parse_datetime L dt = None"
  shows "ObservationListResource_post L db P =
           (Respond 400 (message ''Invalid datetime format. Use ISO format (YYYY-MM-DDTHH:MM:SS)''),
            db)"
proof -
  have "P \<noteq> []" using assms(1) by auto
  moreover have "\<not> (case map_of P ''prop1'' of
                      None \<Rightarrow> False
                    | Some p \<Rightarrow> truthy p \<and> query_get_j Property_id (properities db) p = None)"
    using assms(9) by (auto split: option.splits)
  ultimately show ?thesis
    using assms by (auto simp: ObservationListResource_post_def datetime_format_message_def)
qed

lemma ObservationResource_put_bad_datetime:
  assumes "query_get Observation_id (observations db) k = Some row" "d \<noteq> []"
    "map_of d ''datetime'' = Some v" "parse_datetime L v = None"
  shows "status_of (fst (ObservationResource_put L db k d)) = Some 400 \<and>
         snd (ObservationResource_put L db k d) = db"
proof -
  from assms(3,4) have "isl (put_statements L db d row)"
    by (intro put_statements_unresolved) blast
  then obtain msg where "put_statements L db d row = Inl msg"
    by (cases "put_statements L db d row") auto
  with assms(1,2) show ?thesis by (simp add: ObservationResource_put_def)
qed

lemma ObservationListResource_post_201_stored:
  assumes "status_of (fst (ObservationListResource_post L db P)) = Some 201"
  shows "\<exists>t. parse_datetime L (dict_get P ''datetime'') = Some t \<and>
           map_option Observation_datetime
             (query_get Observation_id
                (observations (snd (ObservationListResource_post L db P)))
                (next_id (map Observation_id (observations db)))) = Some (Some t) \<and>
           ObservationResource_get L (snd (ObservationListResource_post L db P))
                (next_id (map Observation_id (observations db))) =
             Respond 200 (Obj
               [(''id'', JInt (next_id (map Observation_id (observations db)))),
                (''object'', dict_get P ''object''), (''place'', dict_get P ''place''),
                (''instrument'', dict_get P ''instrument''),
                (''datetime'', JStr (isoformat L t)),
                (''observation'', dict_get P ''observation''),
                (''prop1'', dict_get P ''prop1''), (''prop1value'', dict_get P ''prop1value'')])"
proof -
  from ObservationListResource_post_201_form [OF assms] obtain t where
    d: "parse_datetime L (dict_get P ''datetime'') = Some t" and
    p: "ObservationListResource_post L db P =
             (Respond 201 (Obj (Observation_repr L
               \<lparr>Observation_id = (next_id (map Observation_id (observations db))), Observation_object = dict_get P ''object'',
                Observation_place = dict_get P ''place'',
                Observation_instrument = dict_get P ''instrument'',
                Observation_datetime = Some t,
                Observation_observation = dict_get P ''observation'',
                Observation_prop1 = dict_get P ''prop1'',
                Observation_prop1value = dict_get P ''prop1value''\<rparr>)),
              db\<lparr>observations := observations db @
               [\<lparr>Observation_id = (next_id (map Observation_id (observations db))), Observation_object = dict_get P ''object'',
                Observation_place = dict_get P ''place'',
                Observation_instrument = dict_get P ''instrument'',
                Observation_datetime = Some t,
                Observation_observation = dict_get P ''observation'',
                Observation_prop1 = dict_get P ''prop1'',
                Observation_prop1value = dict_get P ''prop1value''\<rparr>]\<rparr>)"
    by blast
  have f: "next_id (map Observation_id (observations db)) \<notin> Observation_id ` set (observations db)"
    using next_id_fresh [of "map Observation_id (observations db)"] by simp
  have g: "query_get Observation_id (observations db @
               [\<lparr>Observation_id = (next_id (map Observation_id (observations db))), Observation_object = dict_get P ''object'',
                Observation_place = dict_get P ''place'',
                Observation_instrument = dict_get P ''instrument'',
                Observation_datetime = Some t,
                Observation_observation = dict_get P ''observation'',
                Observation_prop1 = dict_get P ''prop1'',
                Observation_prop1value = dict_get P ''prop1value''\<rparr>])
             (next_id (map Observation_id (observations db))) =
             Some \<lparr>Observation_id = (next_id (map Observation_id (observations db))), Observation_object = dict_get P ''object'',
                Observation_place = dict_get P ''place'',
                Observation_instrument = dict_get P ''instrument'',
                Observation_datetime = Some t,
                Observation_observation = dict_get P ''observation'',
                Observation_prop1 = dict_get P ''prop1'',
                Observation_prop1value = dict_get P ''prop1value''\<rparr>"
    using f by (intro query_get_append_fresh) simp_all
  show ?thesis
    using d g by (intro exI [of _ t]) (simp add: p ObservationResource_get_def Observation_repr_def)
qed

text \<open>
  C7. The input of a timestamp is read by \<open>fromisoformat\<close> after every \<open>Z\<close> is
  rewritten to \<open>+00:00\<close>, so a trailing \<open>Z\<close> is read as that offset. A \<open>POST\<close> of an
  Observation with the text \<open>2025-01-01T00:00:00Z\<close> that is answered 201 stores what
  \<open>2025-01-01T00:00:00+00:00\<close> parses to, and a \<open>GET\<close> of the new Observation answers
  the \<open>isoformat\<close> rendering of the stored timestamp. A value that does not parse is
  answered 400 and nothing is stored, by \<open>POST\<close> and by \<open>PUT\<close>; when the checks
  before the parsing pass, the message of the \<open>POST\<close> names the expected format.
\<close>

theorem datetime_input:
  "(CHR ''Z'' \<notin> set s \<longrightarrow> parse_datetime L (JStr (s @ ''Z'')) = fromisoformat L (s @ ''+00:00'')) \<and>
   (status_of (fst (ObservationListResource_post L db P)) = Some 201 \<and>
    map_of P ''datetime'' = Some (JStr ''2025-01-01T00:00:00Z'') \<longrightarrow>
      (\<exists>t. fromisoformat L ''2025-01-01T00:00:00+00:00'' = Some t \<and>
         map_option Observation_datetime
           (query_get Observation_id
              (observations (snd (ObservationListResource_post L db P)))
              (next_id (map Observation_id (observations db)))) = Some (Some t) \<and>
         ObservationResource_get L (snd (ObservationListResource_post L db P))
              (next_id (map Observation_id (observations db))) =
           Respond 200 (Obj
             [(''id'', JInt (next_id (map Observation_id (observations db)))),
              (''object'', dict_get P ''object''), (''place'', dict_get P ''place''),
              (''instrument'', dict_get P ''instrument''),
              (''datetime'', JStr (isoformat L t)),
              (''observation'', dict_get P ''observation''),
              (''prop1'', dict_get P ''prop1''), (''prop1value'', dict_get P ''prop1value'')]))) \<and>
   (map_of P ''datetime'' = Some v \<and> parse_datetime L v = None \<longrightarrow>
      (\<exists>m. ObservationListResource_post L db P = (Respond 400 (message m), db))) \<and>
   (map_of P ''object'' = Some ob \<and> map_of P ''place'' = Some pl \<and>
    map_of P ''instrument'' = Some ins \<and> map_of P ''datetime'' = Some v \<and>
    map_of P ''observation'' = Some tx \<and>
    query_get_j Object_id (objects db) ob \<noteq> None \<and>
    query_get_j Place_id (places db) pl \<noteq> None \<and>
    query_get_j Instrument_id (instruments db) ins \<noteq> None \<and>
    (\<forall>p. map_of P ''prop1'' = Some p \<longrightarrow> truthy p \<longrightarrow>
         query_get_j Property_id (properities db) p \<noteq> None) \<and>
    parse_datetime L v = None \<longrightarrow>
      ObservationListResource_post L db P =
        (Respond 400 (message ''Invalid datetime format. Use ISO format (YYYY-MM-DDTHH:MM:SS)''),
         db)) \<and>
   (query_get Observation_id (observations db) k = Some row \<and> d \<noteq> [] \<and>
    map_of d ''datetime'' = Some v \<and> parse_datetime L v = None \<longrightarrow>
      status_of (fst (ObservationResource_put L db k d)) = Some 400 \<and>
      snd (ObservationResource_put L db k d) = db)"
proof (intro conjI impI)
  assume "CHR ''Z'' \<notin> set s"
  then show "parse_datetime L (JStr (s @ ''Z'')) = fromisoformat L (s @ ''+00:00'')"
    by (simp add: replace_Z_trailing)
next
  assume h: "status_of (fst (ObservationListResource_post L db P)) = Some 201 \<and>
    map_of P ''datetime'' = Some (JStr ''2025-01-01T00:00:00Z'')"
  then have z: "parse_datetime L (dict_get P ''datetime'') =
      fromisoformat L ''2025-01-01T00:00:00+00:00''"
    using replace_Z_trailing [of "''2025-01-01T00:00:00''"] by (simp add: dict_get_def)
  from h ObservationListResource_post_201_stored [of L db P]
  show "\<exists>t. fromisoformat L ''2025-01-01T00:00:00+00:00'' = Some t \<and>
         map_option Observation_datetime
           (query_get Observation_id
              (observations (snd (ObservationListResource_post L db P)))
              (next_id (map Observation_id (observations db)))) = Some (Some t) \<and>
         ObservationResource_get L (snd (ObservationListResource_post L db P))
              (next_id (map Observation_id (observations db))) =
           Respond 200 (Obj
             [(''id'', JInt (next_id (map Observation_id (observations db)))),
              (''object'', dict_get P ''object''), (''place'', dict_get P ''place''),
              (''instrument'', dict_get P ''instrument''),
              (''datetime'', JStr (isoformat L t)),
              (''observation'', dict_get P ''observation''),
              (''prop1'', dict_get P ''prop1''), (''prop1value'', dict_get P ''prop1value'')])"
    unfolding z by blast
next
  assume "map_of P ''datetime'' = Some v \<and> parse_datetime L v = None"
  then show "\<exists>m. ObservationListResource_post L db P = (Respond 400 (message m), db)"
    using ObservationListResource_post_bad_datetime by blast
next
  assume "map_of P ''object'' = Some ob \<and> map_of P ''place'' = Some pl \<and>
    map_of P ''instrument'' = Some ins \<and> map_of P ''datetime'' = Some v \<and>
    map_of P ''observation'' = Some tx \<and>
    query_get_j Object_id (objects db) ob \<noteq> None \<and>
    query_get_j Place_id (places db) pl \<noteq> None \<and>
    query_get_j Instrument_id (instruments db) ins \<noteq> None \<and>
    (\<forall>p. map_of P ''prop1'' = Some p \<longrightarrow> truthy p \<longrightarrow>
         query_get_j Property_id (properities db) p \<noteq> None) \<and>
    parse_datetime L v = None"
  then show "ObservationListResource_post L db P =
        (Respond 400 (message ''Invalid datetime format. Use ISO format (YYYY-MM-DDTHH:MM:SS)''),
         db)"
    by (intro ObservationListResource_post_format_message [where ob = ob and pl = pl and
          ins = ins and dt = v and tx = tx]) blast+
next
  assume h: "query_get Observation_id (observations db) k = Some row \<and> d \<noteq> [] \<and>
    map_of d ''datetime'' = Some v \<and> parse_datetime L v = None"
  with ObservationResource_put_bad_datetime [of db k row d v L]
  have "status_of (fst (ObservationResource_put L db k d)) = Some 400 \<and>
    snd (ObservationResource_put L db k d) = db"
    by simp
  then show "status_of (fst (ObservationResource_put L db k d)) = Some 400"
    and "snd (ObservationResource_put L db k d) = db"
    by simp_all
qed

text \<open>
  With the sample library on the sample database: the scenario of the specification
  (the new Observation gets id 4), and the text \<open>01/01/2025\<close>, which does not parse.
\<close>

theorem datetime_input_witness:
  "CHR ''Z'' \<notin> set ''2025-01-01T00:00:00'' \<and>
   parse_datetime sample_lib (JStr ''2025-01-01T00:00:00Z'') =
     fromisoformat sample_lib ''2025-01-01T00:00:00+00:00'' \<and>
   status_of (fst (ObservationListResource_post sample_lib seed_db new_observation)) = Some 201 \<and>
   map_of new_observation ''datetime'' = Some (JStr ''2025-01-01T00:00:00Z'') \<and>
   fromisoformat sample_lib ''2025-01-01T00:00:00+00:00'' = Some (Stamp 2025 1 1 0 0 0) \<and>
   map_option Observation_datetime
     (query_get Observation_id
        (observations (snd (ObservationListResource_post sample_lib seed_db new_observation))) 4) =
     Some (Some (Stamp 2025 1 1 0 0 0)) \<and>
   parse_datetime sample_lib (JStr ''01/01/2025'') = None \<and>
   ObservationListResource_post sample_lib seed_db
       [(''object'', JInt 1), (''place'', JInt 1), (''instrument'', JInt 1),
        (''datetime'', JStr ''01/01/2025''), (''observation'', JStr ''Cloudy'')] =
     (Respond 400 (message ''Invalid datetime format. Use ISO format (YYYY-MM-DDTHH:MM:SS)''),
      seed_db) \<and>
   query_get Observation_id (observations seed_db) 1 = Some (observations seed_db ! 0) \<and>
   status_of (fst (ObservationResource_put sample_lib seed_db 1
       [(''datetime'', JStr ''01/01/2025'')])) = Some 400 \<and>
   snd (ObservationResource_put sample_lib seed_db 1 [(''datetime'', JStr ''01/01/2025'')]) =
     seed_db"
proof -
  have z: "CHR ''Z'' \<notin> set ''2025-01-01T00:00:00''" by simp
  have s: "status_of (fst (ObservationListResource_post sample_lib seed_db new_observation)) =
      Some 201"
    by (simp add: ObservationListResource_post_def new_observation_def seed_db_def query_get_def
          dict_get_def Let_def sample_lib_def sample_fromisoformat_def replace_Z_def
          offset_ok_def read_nat_def digit_of_def)
  have m: "map_of new_observation ''datetime'' = Some (JStr ''2025-01-01T00:00:00Z'')"
    by (simp add: new_observation_def)
  have t: "fromisoformat sample_lib ''2025-01-01T00:00:00+00:00'' = Some (Stamp 2025 1 1 0 0 0)"
    by (simp add: sample_lib_def sample_fromisoformat_def offset_ok_def read_nat_def digit_of_def)
  have n: "next_id (map Observation_id (observations seed_db)) = 4"
    by (simp add: next_id_def seed_db_def)
  have b: "parse_datetime sample_lib (JStr ''01/01/2025'') = None"
    by (simp add: sample_lib_def sample_fromisoformat_def replace_Z_def)
  have k: "query_get_j Object_id (objects seed_db) (JInt 1) \<noteq> None"
    "query_get_j Place_id (places seed_db) (JInt 1) \<noteq> None"
    "query_get_j Instrument_id (instruments seed_db) (JInt 1) \<noteq> None"
    "query_get Observation_id (observations seed_db) 1 = Some (observations seed_db ! 0)"
    by (simp_all add: seed_db_def query_get_def)
  note T = datetime_input [where L = sample_lib and db = seed_db]
  have c1: "parse_datetime sample_lib (JStr ''2025-01-01T00:00:00Z'') =
     fromisoformat sample_lib ''2025-01-01T00:00:00+00:00''"
    using T [where s = "''2025-01-01T00:00:00''", THEN conjunct1] z by simp
  have c2: "map_option Observation_datetime
     (query_get Observation_id
        (observations (snd (ObservationListResource_post sample_lib seed_db new_observation))) 4) =
     Some (Some (Stamp 2025 1 1 0 0 0))"
    using T [where P = new_observation, THEN conjunct2, THEN conjunct1] s m t n by auto
  have c4: "ObservationListResource_post sample_lib seed_db
       [(''object'', JInt 1), (''place'', JInt 1), (''instrument'', JInt 1),
        (''datetime'', JStr ''01/01/2025''), (''observation'', JStr ''Cloudy'')] =
     (Respond 400 (message ''Invalid datetime format. Use ISO format (YYYY-MM-DDTHH:MM:SS)''),
      seed_db)"
    using T [where P = "[(''object'', JInt 1), (''place'', JInt 1), (''instrument'', JInt 1),
        (''datetime'', JStr ''01/01/2025''), (''observation'', JStr ''Cloudy'')]" and
        ob = "JInt 1" and pl = "JInt 1" and ins = "JInt 1" and v = "JStr ''01/01/2025''" and
        tx = "JStr ''Cloudy''", THEN conjunct2, THEN conjunct2, THEN conjunct2, THEN conjunct1]
      b k
    by simp
  have c5: "status_of (fst (ObservationResource_put sample_lib seed_db 1
       [(''datetime'', JStr ''01/01/2025'')])) = Some 400 \<and>
   snd (ObservationResource_put sample_lib seed_db 1 [(''datetime'', JStr ''01/01/2025'')]) =
     seed_db"
    using T [where k = 1 and row = "observations seed_db ! 0" and
        d = "[(''datetime'', JStr ''01/01/2025'')]" and v = "JStr ''01/01/2025''",
        THEN conjunct2, THEN conjunct2, THEN conjunct2, THEN conjunct2] b k
    by simp
  show ?thesis
    using z c1 s m t c2 b c4 k(4) c5 by blast
qed

section \<open>The bodies of the responses\<close>

lemma TypeListResource_get_message:
  "message_unless_success (TypeListResource_get db)"
  by (simp add: TypeListResource_get_def message_def Let_def split: option.split if_split sum.split)

lemma TypeListResource_post_message:
  "message_unless_success (fst (TypeListResource_post db P))"
  by (simp add: TypeListResource_post_def message_def Let_def split: option.split if_split sum.split)

lemma TypeResource_get_message:
  "message_unless_success (TypeResource_get db k)"
  by (simp add: TypeResource_get_def message_def Let_def split: option.split if_split sum.split)

lemma TypeResource_put_message:
  "message_unless_success (fst (TypeResource_put db k d))"
  by (simp add: TypeResource_put_def message_def Let_def split: option.split if_split sum.split)

lemma TypeResource_delete_message:
  "message_unless_success (fst (TypeResource_delete db k))"
  by (simp add: TypeResource_delete_def message_def Let_def split: option.split if_split sum.split)

lemma PropertyListResource_get_message:
  "message_unless_success (PropertyListResource_get db)"
  by (simp add: PropertyListResource_get_def message_def Let_def split: option.split if_split sum.split)

lemma PropertyListResource_post_message:
  "message_unless_success (fst (PropertyListResource_post db P))"
  by (simp add: PropertyListResource_post_def message_def Let_def split: option.split if_split sum.split)

lemma PropertyResource_get_message:
  "message_unless_success (PropertyResource_get db k)"
  by (simp add: PropertyResource_get_def message_def Let_def split: option.split if_split sum.split)

lemma PropertyResource_put_message:
  "message_unless_success (fst (PropertyResource_put db k d))"
  by (simp add: PropertyResource_put_def message_def Let_def split: option.split if_split sum.split)

lemma PropertyResource_delete_message:
  "message_unless_success (fst (PropertyResource_delete db k))"
  by (simp add: PropertyResource_delete_def message_def Let_def split: option.split if_split sum.split)

lemma PlaceListResource_get_message:
  "message_unless_success (PlaceListResource_get db)"
  by (simp add: PlaceListResource_get_def message_def Let_def split: option.split if_split sum.split)

lemma PlaceListResource_post_message:
  "message_unless_success (fst (PlaceListResource_post db P))"
  by (simp add: PlaceListResource_post_def message_def Let_def split: option.split if_split sum.split)

lemma PlaceResource_get_message:
  "message_unless_success (PlaceResource_get db k)"
  by (simp add: PlaceResource_get_def message_def Let_def split: option.split if_split sum.split)

lemma PlaceResource_put_message:
  "message_unless_success (fst (PlaceResource_put db k d))"
  by (simp add: PlaceResource_put_def message_def Let_def split: option.split if_split sum.split)

lemma PlaceResource_delete_message:
  "message_unless_success (fst (PlaceResource_delete db k))"
  by (simp add: PlaceResource_delete_def message_def Let_def split: option.split if_split sum.split)

lemma InstrumentListResource_get_message:
  "message_unless_success (InstrumentListResource_get db)"
  by (simp add: InstrumentListResource_get_def message_def Let_def split: option.split if_split sum.split)

lemma InstrumentListResource_post_message:
  "message_unless_success (fst (InstrumentListResource_post db P))"
  by (simp add: InstrumentListResource_post_def message_def Let_def split: option.split if_split sum.split)

lemma InstrumentResource_get_message:
  "message_unless_success (InstrumentResource_get db k)"
  by (simp add: InstrumentResource_get_def message_def Let_def split: option.split if_split sum.split)

lemma InstrumentResource_put_message:
  "message_unless_success (fst (InstrumentResource_put db k d))"
  by (simp add: InstrumentResource_put_def message_def Let_def split: option.split if_split sum.split)

lemma InstrumentResource_delete_message:
  "message_unless_success (fst (InstrumentResource_delete db k))"
  by (simp add: InstrumentResource_delete_def message_def Let_def split: option.split if_split sum.split)

lemma ObjectListResource_get_message:
  "message_unless_success (ObjectListResource_get db)"
  by (simp add: ObjectListResource_get_def message_def Let_def split: option.split if_split sum.split)

lemma ObjectListResource_post_message:
  "message_unless_success (fst (ObjectListResource_post db P))"
  by (simp add: ObjectListResource_post_def message_def Let_def split: option.split if_split sum.split)

lemma ObjectResource_get_message:
  "message_unless_success (ObjectResource_get db k)"
  by (simp add: ObjectResource_get_def message_def Let_def split: option.split if_split sum.split)

lemma ObjectResource_put_message:
  "message_unless_success (fst (ObjectResource_put db k d))"
  by (simp add: ObjectResource_put_def message_def Let_def split: option.split if_split sum.split)

lemma ObjectResource_delete_message:
  "message_unless_success (fst (ObjectResource_delete db k))"
  by (simp add: ObjectResource_delete_def message_def Let_def split: option.split if_split sum.split)

lemma ObservationListResource_get_message:
  "message_unless_success (ObservationListResource_get L db)"
  by (simp add: ObservationListResource_get_def message_def Let_def split: option.split if_split sum.split)

lemma ObservationListResource_post_message:
  "message_unless_success (fst (ObservationListResource_post L db P))"
proof (cases "P = [] \<or> map_of P ''object'' = None \<or> map_of P ''place'' = None \<or>
           map_of P ''instrument'' = None \<or> map_of P ''datetime'' = None \<or>
           map_of P ''observation'' = None")
  case True
  from ObservationListResource_post_missing [OF this, of L db] show ?thesis
    by (auto simp: message_def)
next
  case False
  then obtain ob pl ins dt tx where "P \<noteq> []" "map_of P ''object'' = Some ob"
    "map_of P ''place'' = Some pl" "map_of P ''instrument'' = Some ins"
    "map_of P ''datetime'' = Some dt" "map_of P ''observation'' = Some tx"
    by auto
  from ObservationListResource_post_present [OF this, of L db] show ?thesis
    by (cases "fst (ObservationListResource_post L db P)") (auto simp: message_def)
qed

lemma ObservationResource_get_message:
  "message_unless_success (ObservationResource_get L db k)"
  by (simp add: ObservationResource_get_def message_def Let_def split: option.split if_split sum.split)

lemma ObservationResource_put_message:
  "message_unless_success (fst (ObservationResource_put L db k d))"
  by (simp add: ObservationResource_put_def message_def Let_def split: option.split if_split sum.split)

lemma ObservationResource_delete_message:
  "message_unless_success (fst (ObservationResource_delete db k))"
  by (simp add: ObservationResource_delete_def message_def Let_def split: option.split if_split sum.split)

lemma ObjectObservationsResource_get_message:
  "message_unless_success (ObjectObservationsResource_get L db k)"
  by (simp add: ObjectObservationsResource_get_def message_def Let_def split: option.split if_split sum.split)

lemma PlaceObservationsResource_get_message:
  "message_unless_success (PlaceObservationsResource_get L db k)"
  by (simp add: PlaceObservationsResource_get_def message_def Let_def split: option.split if_split sum.split)

lemma InstrumentObservationsResource_get_message:
  "message_unless_success (InstrumentObservationsResource_get L db k)"
  by (simp add: InstrumentObservationsResource_get_def message_def Let_def split: option.split if_split sum.split)

lemma ObservationSearchResource_get_message:
  "message_unless_success (ObservationSearchResource_get L db start_date end_date object_id place_id instrument_id)"
  unfolding ObservationSearchResource_get_def
  by (simp add: message_def split: sum.split)

text \<open>
  Every response a handler of \<open>resources.py\<close> returns with a status other than 200
  and 201 has a JSON object with the one field \<open>message\<close>, a string, as its body.
\<close>

lemma error_responses_carry_message:
  "message_unless_success (TypeListResource_get db) \<and>
   message_unless_success (fst (TypeListResource_post db P)) \<and>
   message_unless_success (TypeResource_get db k) \<and>
   message_unless_success (fst (TypeResource_put db k d)) \<and>
   message_unless_success (fst (TypeResource_delete db k)) \<and>
   message_unless_success (PropertyListResource_get db) \<and>
   message_unless_success (fst (PropertyListResource_post db P)) \<and>
   message_unless_success (PropertyResource_get db k) \<and>
   message_unless_success (fst (PropertyResource_put db k d)) \<and>
   message_unless_success (fst (PropertyResource_delete db k)) \<and>
   message_unless_success (PlaceListResource_get db) \<and>
   message_unless_success (fst (PlaceListResource_post db P)) \<and>
   message_unless_success (PlaceResource_get db k) \<and>
   message_unless_success (fst (PlaceResource_put db k d)) \<and>
   message_unless_success (fst (PlaceResource_delete db k)) \<and>
   message_unless_success (InstrumentListResource_get db) \<and>
   message_unless_success (fst (InstrumentListResource_post db P)) \<and>
   message_unless_success (InstrumentResource_get db k) \<and>
   message_unless_success (fst (InstrumentResource_put db k d)) \<and>
   message_unless_success (fst (InstrumentResource_delete db k)) \<and>
   message_unless_success (ObjectListResource_get db) \<and>
   message_unless_success (fst (ObjectListResource_post db P)) \<and>
   message_unless_success (ObjectResource_get db k) \<and>
   message_unless_success (fst (ObjectResource_put db k d)) \<and>
   message_unless_success (fst (ObjectResource_delete db k)) \<and>
   message_unless_success (ObservationListResource_get L db) \<and>
   message_unless_success (fst (ObservationListResource_post L db P)) \<and>
   message_unless_success (ObservationResource_get L db k) \<and>
   message_unless_success (fst (ObservationResource_put L db k d)) \<and>
   message_unless_success (fst (ObservationResource_delete db k)) \<and>
   message_unless_success (ObjectObservationsResource_get L db k) \<and>
   message_unless_success (PlaceObservationsResource_get L db k) \<and>
   message_unless_success (InstrumentObservationsResource_get L db k) \<and>
   message_unless_success (ObservationSearchResource_get L db start_date end_date object_id place_id instrument_id)"
  by (intro conjI TypeListResource_get_message TypeListResource_post_message TypeResource_get_message TypeResource_put_message TypeResource_delete_message PropertyListResource_get_message PropertyListResource_post_message PropertyResource_get_message PropertyResource_put_message PropertyResource_delete_message PlaceListResource_get_message PlaceListResource_post_message PlaceResource_get_message PlaceResource_put_message PlaceResource_delete_message InstrumentListResource_get_message InstrumentListResource_post_message InstrumentResource_get_message InstrumentResource_put_message InstrumentResource_delete_message ObjectListResource_get_message ObjectListResource_post_message ObjectResource_get_message ObjectResource_put_message ObjectResource_delete_message ObservationListResource_get_message ObservationListResource_post_message ObservationResource_get_message ObservationResource_put_message ObservationResource_delete_message ObjectObservationsResource_get_message PlaceObservationsResource_get_message InstrumentObservationsResource_get_message ObservationSearchResource_get_message)


section \<open>Schema validation\<close>


































end
